theory Spec2Isabelle
  imports Main "HOL-Library.Multiset"
begin

section \<open>Documents and collections\<close>

text \<open>
  Modelled from the spec: the schema module \<^verbatim>\<open>./models/File\<close> (the Mongoose models
  \<^verbatim>\<open>User\<close>, \<^verbatim>\<open>Tweet\<close>, \<^verbatim>\<open>Comment\<close>) is required by \<^verbatim>\<open>server.js\<close> but is not among the
  sources. The records below hold the fields the handlers of \<^verbatim>\<open>server.js\<close> read and write,
  with the types of the spec's data model: \<^verbatim>\<open>likes\<close> and \<^verbatim>\<open>retweets\<close> are arrays of user
  names, \<^verbatim>\<open>comments\<close> and \<^verbatim>\<open>tweets\<close> are arrays of document ids. The field \<^verbatim>\<open>_id\<close> is
  written \<open>doc_id\<close>. An optional reference (\<^verbatim>\<open>postedBy\<close>, \<^verbatim>\<open>retweetedFrom\<close>) is an option:
  \<open>None\<close> is the falsy \<^verbatim>\<open>undefined\<close>/\<^verbatim>\<open>null\<close>.
\<close>

type_synonym objectId = nat

record doc =
  doc_id :: objectId

record post = doc +
  content :: string
  postedBy :: "objectId option"
  likes :: "string list"
  isEdited :: bool
  createdAt :: nat

record tweet = post +
  retweets :: "string list"
  tag :: "string option"
  likeTweetBtn :: string
  retweetBtn :: string
  image :: "string option"
  comments :: "objectId list"
  postedTweetTime :: string
  retweetedFrom :: "objectId option"
  isRetweeted :: bool

record comment = post +
  postedCommentTime :: string
  likeCommentBtn :: string

record user = doc +
  username :: string
  tweets :: "objectId list"

text \<open>
  The database: one list per collection, in insertion order (the order in which
  \<^verbatim>\<open>findOne\<close> without a sort meets the documents). The fields carry the names of the
  Mongoose models.
\<close>

record store =
  Tweet :: "tweet list"
  Comment :: "comment list"
  User :: "user list"

text \<open>
  What the environment supplies to a handler that creates a document: the fresh \<^verbatim>\<open>_id\<close>,
  the string \<^verbatim>\<open>moment().format("MMMM Do YYYY, h:mm:ss a")\<close> and the creation timestamp.
\<close>

record env =
  newId :: objectId
  nowTime :: string
  nowStamp :: nat

text \<open>\<^verbatim>\<open>req.user\<close>, the decoded token that \<^verbatim>\<open>validateToken\<close> attaches to the request.\<close>

record token =
  tok_id :: objectId
  tok_username :: string

subsection \<open>Responses\<close>

datatype body =
    Message string
  | RetweetBody int string
  | LikeBody nat string
  | CommentLikeBody string nat
  | CommentBody "comment option" nat
  | TweetBody "tweet option"
  | FeedBody "tweet list" string

text \<open>
  \<open>Response code body\<close> is \<^verbatim>\<open>res.status(code).json(body)\<close>. A handler returns the new store
  and \<open>Some\<close> response, or \<open>None\<close> when it ends without sending one.
\<close>

datatype response = Response nat body

subsection \<open>Array methods of JavaScript\<close>

fun indexOf :: "'a list \<Rightarrow> 'a \<Rightarrow> nat option" where
  "indexOf [] x = None"
| "indexOf (y # ys) x = (if y = x then Some 0 else map_option Suc (indexOf ys x))"

definition push :: "'a list \<Rightarrow> 'a \<Rightarrow> 'a list" where
  "push xs x = xs @ [x]"

definition unshift :: "'a list \<Rightarrow> 'a \<Rightarrow> 'a list" where
  "unshift xs x = x # xs"

text \<open>\<^verbatim>\<open>xs.splice(i, 1)\<close>: the array without its element at index \<open>i\<close>.\<close>

definition splice1 :: "'a list \<Rightarrow> nat \<Rightarrow> 'a list" where
  "splice1 xs i = take i xs @ drop (Suc i) xs"

text \<open>
  \<^verbatim>\<open>String.prototype.trim\<close>, on strings whose characters are code units below 256: white
  space and line terminators are TAB, LF, VT, FF, CR, SP and NBSP.
\<close>

definition js_whitespace :: "char \<Rightarrow> bool" where
  "js_whitespace c = (of_char c \<in> {9, 10, 11, 12, 13, 32, 160 :: nat})"

definition trim :: "string \<Rightarrow> string" where
  "trim s = rev (dropWhile js_whitespace (rev (dropWhile js_whitespace s)))"

subsection \<open>Mongoose operations\<close>

text \<open>
  MongoDB keeps \<^verbatim>\<open>_id\<close> unique within a collection, so an operation by id addresses the
  document that carries the id. \<^verbatim>\<open>findOne\<close> and \<^verbatim>\<open>findOneAndDelete\<close> with another
  filter take the first match in insertion order.
\<close>

abbreviation findOne :: "('a \<Rightarrow> bool) \<Rightarrow> 'a list \<Rightarrow> 'a option" where
  "findOne P xs \<equiv> find P xs"

definition findById :: "objectId \<Rightarrow> ('a doc_scheme) list \<Rightarrow> ('a doc_scheme) option" where
  "findById i xs = find (\<lambda>d. doc_id d = i) xs"

definition create :: "'a \<Rightarrow> 'a list \<Rightarrow> 'a list" where
  "create d xs = xs @ [d]"

definition save :: "'a doc_scheme \<Rightarrow> ('a doc_scheme) list \<Rightarrow> ('a doc_scheme) list" where
  "save d xs = map (\<lambda>x. if doc_id x = doc_id d then d else x) xs"

definition updateMany :: "('a \<Rightarrow> bool) \<Rightarrow> ('a \<Rightarrow> 'a) \<Rightarrow> 'a list \<Rightarrow> 'a list" where
  "updateMany P f xs = map (\<lambda>x. if P x then f x else x) xs"

definition findByIdAndUpdate ::
  "objectId \<Rightarrow> ('a doc_scheme \<Rightarrow> 'a doc_scheme) \<Rightarrow> ('a doc_scheme) list \<Rightarrow> ('a doc_scheme) list" where
  "findByIdAndUpdate i f xs = map (\<lambda>x. if doc_id x = i then f x else x) xs"

fun deleteFirst :: "('a \<Rightarrow> bool) \<Rightarrow> 'a list \<Rightarrow> 'a list" where
  "deleteFirst P [] = []"
| "deleteFirst P (x # xs) = (if P x then xs else x # deleteFirst P xs)"

definition findOneAndDelete :: "('a \<Rightarrow> bool) \<Rightarrow> 'a list \<Rightarrow> 'a option \<times> 'a list" where
  "findOneAndDelete P xs = (find P xs, deleteFirst P xs)"

text \<open>\<^verbatim>\<open>a || b\<close> on an optional reference: \<^verbatim>\<open>tweet.retweetedFrom || tweet._id\<close>.\<close>

definition originalIdOf :: "tweet \<Rightarrow> objectId" where
  "originalIdOf t = (case retweetedFrom t of Some r \<Rightarrow> r | None \<Rightarrow> doc_id t)"

text \<open>
  Mongoose casts a filter value to the type of the path it is matched against. A string
  becomes an \<^verbatim>\<open>ObjectId\<close> when it is 24 hexadecimal digits; any other string raises a
  \<^verbatim>\<open>CastError\<close>. (The strings \<^verbatim>\<open>moment().format("MMMM Do YYYY, h:mm:ss a")\<close> produces
  hold blanks and a comma, and are at least 24 characters long.)
\<close>

definition hexDigit :: "char \<Rightarrow> nat option" where
  "hexDigit c =
     (let n = (of_char c :: nat) in
      if 48 \<le> n \<and> n \<le> 57 then Some (n - 48)
      else if 97 \<le> n \<and> n \<le> 102 then Some (n - 87)
      else if 65 \<le> n \<and> n \<le> 70 then Some (n - 55)
      else None)"

definition castObjectId :: "string \<Rightarrow> objectId option" where
  "castObjectId s =
     (if length s = 24 \<and> list_all (\<lambda>c. hexDigit c \<noteq> None) s
      then Some (foldl (\<lambda>a c. 16 * a + (case hexDigit c of Some d \<Rightarrow> d | None \<Rightarrow> 0)) 0 s)
      else None)"

text \<open>
  \<^verbatim>\<open>Tweet.find(filter).sort({createdAt: -1}).skip(n).limit(20)\<close>. MongoDB rejects a negative
  skip (\<open>None\<close>, the rejected promise). The order among equal timestamps is the database's
  choice; the model takes one such order.
\<close>

definition findSortSkipLimit :: "(tweet \<Rightarrow> bool) \<Rightarrow> int \<Rightarrow> tweet list \<Rightarrow> tweet list option" where
  "findSortSkipLimit P n xs =
     (if n < 0 then None
      else Some (take 20 (drop (nat n) (rev (sort_key createdAt (filter P xs))))))"

section \<open>The request handlers\<close>

subsection \<open>GET /feed and the query of GET /topic/:tag\<close>

text \<open>
  \<open>t\<close> is \<^verbatim>\<open>parseInt(req.query.t)\<close>: \<open>None\<close> for \<^verbatim>\<open>NaN\<close> (a missing or non-numeric
  parameter), so \<^verbatim>\<open>parseInt(req.query.t) || 0\<close> is \<open>0\<close> for \<open>None\<close> and for \<open>Some 0\<close>.
  The buttons are set on the documents of the response only (nothing is saved). The
  populated comments of the response are not modelled.
\<close>

definition feed :: "token \<Rightarrow> int option \<Rightarrow> store \<Rightarrow> store \<times> response option" where
  "feed ru t st =
     (let tweetsToSkip = (case t of None \<Rightarrow> 0 | Some n \<Rightarrow> n);
          username' = tok_username ru
      in case findSortSkipLimit (\<lambda>tw. isRetweeted tw = False) tweetsToSkip (Tweet st) of
           None \<Rightarrow> (st, Some (Response 500 (Message ''Internal server error'')))
         | Some tws \<Rightarrow>
             (st, Some (Response 200 (FeedBody
                (map (\<lambda>tw. tw\<lparr>likeTweetBtn :=
                                 (if username' \<in> set (likes tw) then ''deeppink'' else ''black''),
                              retweetBtn :=
                                 (if username' \<in> set (retweets tw) then ''green'' else ''black'')\<rparr>)
                     tws)
                username'))))"

text \<open>The query of \<^verbatim>\<open>GET /topic/:tag\<close>, with the skip value already a number.\<close>

definition topicQuery :: "string \<Rightarrow> int \<Rightarrow> store \<Rightarrow> tweet list option" where
  "topicQuery tg tweetsToSkip st =
     findSortSkipLimit (\<lambda>tw. isRetweeted tw = False \<and> tag tw = Some tg) tweetsToSkip (Tweet st)"

subsection \<open>POST /feed/comment/:tweetId\<close>

definition composeComment ::
  "env \<Rightarrow> token \<Rightarrow> string \<Rightarrow> string \<Rightarrow> store \<Rightarrow> store \<times> response option" where
  "composeComment e ru reqContent tweetId st =
     (let newComment = \<lparr>doc_id = newId e, content = reqContent, postedBy = None, likes = [],
                         isEdited = False, createdAt = nowStamp e,
                         postedCommentTime = nowTime e, likeCommentBtn = ''black''\<rparr>;
          st1 = st\<lparr>Comment := create newComment (Comment st)\<rparr>
      in case findOne (\<lambda>tw. postedTweetTime tw = tweetId) (Tweet st1) of
           None \<Rightarrow> (st1, Some (Response 404 (Message ''Tweet not found'')))
         | Some tweet \<Rightarrow>
             let originalTweetId = originalIdOf tweet
             in (case findById originalTweetId (Tweet st1) of
                  None \<Rightarrow> (st1, Some (Response 404 (Message ''Original tweet not found'')))
                | Some originalTweet \<Rightarrow>
                    (case findOne (\<lambda>u. username u = tok_username ru) (User st1) of
                       None \<Rightarrow> (st1, Some (Response 404 (Message ''User not found'')))
                     | Some usr \<Rightarrow>
                         let newComment' = newComment\<lparr>postedBy := Some (doc_id usr)\<rparr>;
                             st2 = st1\<lparr>Comment := save newComment' (Comment st1)\<rparr>;
                             originalTweet' = originalTweet
                               \<lparr>comments := unshift (comments originalTweet) (doc_id newComment')\<rparr>;
                             st3 = st2\<lparr>Tweet := save originalTweet' (Tweet st2)\<rparr>;
                             st4 = st3\<lparr>Tweet := updateMany
                               (\<lambda>tw. doc_id tw = originalTweetId \<or>
                                     retweetedFrom tw = Some originalTweetId)
                               (\<lambda>tw. tw\<lparr>comments := comments originalTweet'\<rparr>) (Tweet st3)\<rparr>;
                             populatedComment = findById (doc_id newComment') (Comment st4)
                         in (st4, Some (Response 200 (CommentBody populatedComment
                                          (length (comments originalTweet'))))))))"

subsection \<open>POST /post/:userName/retweet/:tweetId\<close>

definition retweet ::
  "env \<Rightarrow> token \<Rightarrow> string \<Rightarrow> string \<Rightarrow> store \<Rightarrow> store \<times> response option" where
  "retweet e ru userName tweetId st =
     (case findOne (\<lambda>tw. postedTweetTime tw = tweetId) (Tweet st) of
        None \<Rightarrow> (st, Some (Response 404 (Message ''Tweet not found'')))
      | Some tweet \<Rightarrow>
          let originalTweetId = originalIdOf tweet
          in (case indexOf (retweets tweet) userName of
               None \<Rightarrow>
                 if isRetweeted tweet
                 then (st, Some (Response 400 (Message ''Cannot retweet a retweeted tweet'')))
                 else
                   let newTweet = \<lparr>doc_id = newId e, content = content tweet,
                                     postedBy = postedBy tweet, likes = likes tweet,
                                     isEdited = isEdited tweet, createdAt = nowStamp e,
                                     retweets = retweets tweet @ [userName], tag = tag tweet,
                                     likeTweetBtn = likeTweetBtn tweet, retweetBtn = ''green'',
                                     image = image tweet, comments = comments tweet,
                                     postedTweetTime = nowTime e,
                                     retweetedFrom = Some originalTweetId, isRetweeted = True\<rparr>;
                       st1 = st\<lparr>Tweet := create newTweet (Tweet st)\<rparr>;
                       st2 = (case findOne (\<lambda>u. username u = userName) (User st1) of
                                Some usr \<Rightarrow>
                                  st1\<lparr>User := save (usr\<lparr>tweets := unshift (tweets usr) (doc_id newTweet)\<rparr>)
                                                  (User st1)\<rparr>
                              | None \<Rightarrow> st1);
                       st3 = st2\<lparr>Tweet := findByIdAndUpdate originalTweetId
                                 (\<lambda>tw. tw\<lparr>retweets := push (retweets tw) userName\<rparr>) (Tweet st2)\<rparr>
                   in (st3, Some (Response 200
                         (RetweetBody (int (length (retweets tweet)) + 1) ''green'')))
             | Some userIndex \<Rightarrow>
                 (case findOneAndDelete
                         (\<lambda>tw. retweetedFrom tw = Some originalTweetId \<and>
                               postedBy tw = Some (tok_id ru)) (Tweet st) of
                    (None, _) \<Rightarrow> (st, None)
                  | (Some retweetedTweet, tws) \<Rightarrow>
                      let st1 = st\<lparr>Tweet := tws\<rparr>;
                          st2 = st1\<lparr>Tweet := findByIdAndUpdate originalTweetId
                                  (\<lambda>tw. tw\<lparr>retweets := filter (\<lambda>n. n \<noteq> userName) (retweets tw)\<rparr>)
                                  (Tweet st1)\<rparr>;
                          st3 = (case findOne (\<lambda>u. username u = userName) (User st2) of
                                   Some usr \<Rightarrow>
                                     st2\<lparr>User := save
                                       (usr\<lparr>tweets := filter (\<lambda>i. i \<noteq> doc_id retweetedTweet)
                                                          (tweets usr)\<rparr>) (User st2)\<rparr>
                                 | None \<Rightarrow> st2)
                      in (st3, Some (Response 200
                            (RetweetBody (int (length (retweets tweet)) - 1) ''black''))))))"

subsection \<open>POST /post/:userName/like/:tweetId and POST /comment/:userName/like/:commentId\<close>

definition likeTweet :: "string \<Rightarrow> string \<Rightarrow> store \<Rightarrow> store \<times> response option" where
  "likeTweet userName tweetId st =
     (case findOne (\<lambda>tw. postedTweetTime tw = tweetId) (Tweet st) of
        None \<Rightarrow> (st, Some (Response 404 (Message ''Tweet not found'')))
      | Some tweet \<Rightarrow>
          let tweet' = (case indexOf (likes tweet) userName of
                          None \<Rightarrow> tweet\<lparr>likes := push (likes tweet) userName,
                                         likeTweetBtn := ''deeppink''\<rparr>
                        | Some userIndex \<Rightarrow> tweet\<lparr>likes := splice1 (likes tweet) userIndex,
                                                   likeTweetBtn := ''black''\<rparr>);
              st1 = st\<lparr>Tweet := save tweet' (Tweet st)\<rparr>;
              tweetIdToUpdate = originalIdOf tweet';
              st2 = st1\<lparr>Tweet := updateMany
                      (\<lambda>tw. doc_id tw = tweetIdToUpdate \<or> retweetedFrom tw = Some tweetIdToUpdate)
                      (\<lambda>tw. tw\<lparr>likes := likes tweet'\<rparr>) (Tweet st1)\<rparr>
          in (st2, Some (Response 200 (LikeBody (length (likes tweet')) (likeTweetBtn tweet')))))"

definition likeComment :: "string \<Rightarrow> string \<Rightarrow> store \<Rightarrow> store \<times> response option" where
  "likeComment userName commentId st =
     (case findOne (\<lambda>c. postedCommentTime c = commentId) (Comment st) of
        None \<Rightarrow> (st, Some (Response 404 (Message ''Comment not found'')))
      | Some cmt \<Rightarrow>
          let cmt' = (case indexOf (likes cmt) userName of
                        None \<Rightarrow> cmt\<lparr>likes := push (likes cmt) userName,
                                     likeCommentBtn := ''deeppink''\<rparr>
                      | Some userIndex \<Rightarrow> cmt\<lparr>likes := splice1 (likes cmt) userIndex,
                                               likeCommentBtn := ''black''\<rparr>);
              st1 = st\<lparr>Comment := save cmt' (Comment st)\<rparr>
          in (st1, Some (Response 200 (CommentLikeBody (likeCommentBtn cmt') (length (likes cmt'))))))"

subsection \<open>POST /comment/delete/:commentId\<close>

text \<open>
  The filter and the \<^verbatim>\<open>$pull\<close> of \<^verbatim>\<open>Tweet.updateMany\<close> are given \<^verbatim>\<open>req.params.commentId\<close>,
  the string that \<^verbatim>\<open>findOneAndDelete\<close> has just matched against \<^verbatim>\<open>postedCommentTime\<close>;
  \<^verbatim>\<open>comments\<close> holds the ids that \<^verbatim>\<open>comments.unshift(newComment._id)\<close> put there, so the
  string is cast. A \<^verbatim>\<open>CastError\<close> is caught by the handler's \<^verbatim>\<open>catch\<close>, after the comment
  is deleted.
\<close>

definition deleteComment :: "string \<Rightarrow> store \<Rightarrow> store \<times> response option" where
  "deleteComment commentId st =
     (case findOneAndDelete (\<lambda>c. postedCommentTime c = commentId) (Comment st) of
        (None, _) \<Rightarrow> (st, Some (Response 404 (Message ''Comment not found'')))
      | (Some deletedComment, cs) \<Rightarrow>
          let st1 = st\<lparr>Comment := cs\<rparr>
          in (case castObjectId commentId of
                None \<Rightarrow> (st1, Some (Response 500 (Message ''Internal server error'')))
              | Some i \<Rightarrow>
                  (st1\<lparr>Tweet := updateMany (\<lambda>tw. i \<in> set (comments tw))
                            (\<lambda>tw. tw\<lparr>comments := filter (\<lambda>c. c \<noteq> i) (comments tw)\<rparr>) (Tweet st1)\<rparr>,
                   Some (Response 200 (Message ''Comment deleted successfully'')))))"

subsection \<open>POST /editTweet/:tweetId and POST /comment/edit/:commentId\<close>

text \<open>
  \<open>reqContent\<close> is \<^verbatim>\<open>req.body.content\<close>: \<open>None\<close> when the body has no such field, a
  string otherwise (a body whose \<^verbatim>\<open>content\<close> is not a string is outside the model). The
  empty string is falsy. \<^verbatim>\<open>originalTweet.postedBy.toString()\<close> throws on a tweet without
  \<^verbatim>\<open>postedBy\<close>, which the handler's \<^verbatim>\<open>catch\<close> answers with 500.
\<close>

definition editTweet ::
  "token \<Rightarrow> string option \<Rightarrow> string \<Rightarrow> store \<Rightarrow> store \<times> response option" where
  "editTweet ru reqContent tweetId st =
     (case reqContent of
        None \<Rightarrow> (st, Some (Response 400 (Message ''Content cannot be empty'')))
      | Some cont \<Rightarrow>
          if cont = [] \<or> trim cont = []
          then (st, Some (Response 400 (Message ''Content cannot be empty'')))
          else
            (case findOne (\<lambda>tw. postedTweetTime tw = tweetId) (Tweet st) of
               None \<Rightarrow> (st, Some (Response 404 (Message ''Tweet not found'')))
             | Some tweet \<Rightarrow>
                 let originalTweetId = originalIdOf tweet
                 in (case findById originalTweetId (Tweet st) of
                       None \<Rightarrow> (st, Some (Response 404 (Message ''Original tweet not found'')))
                     | Some originalTweet \<Rightarrow>
                         (case postedBy originalTweet of
                            None \<Rightarrow> (st, Some (Response 500 (Message ''Internal server error'')))
                          | Some author \<Rightarrow>
                              if author \<noteq> tok_id ru
                              then (st, Some (Response 403
                                      (Message ''Unauthorized to edit this tweet'')))
                              else
                                let originalTweet' = originalTweet\<lparr>content := cont, isEdited := True\<rparr>;
                                    st1 = st\<lparr>Tweet := save originalTweet' (Tweet st)\<rparr>;
                                    st2 = st1\<lparr>Tweet := updateMany
                                      (\<lambda>tw. retweetedFrom tw = Some originalTweetId)
                                      (\<lambda>tw. tw\<lparr>content := content originalTweet', isEdited := True\<rparr>)
                                      (Tweet st1)\<rparr>;
                                    updatedTweet = findById originalTweetId (Tweet st2)
                                in (st2, Some (Response 200 (TweetBody updatedTweet)))))))"

definition editComment :: "string option \<Rightarrow> string \<Rightarrow> store \<Rightarrow> store \<times> response option" where
  "editComment reqContent commentId st =
     (case reqContent of
        None \<Rightarrow> (st, Some (Response 400 (Message ''Content cannot be empty'')))
      | Some cont \<Rightarrow>
          if cont = [] \<or> trim cont = []
          then (st, Some (Response 400 (Message ''Content cannot be empty'')))
          else
            (case findOne (\<lambda>c. postedCommentTime c = commentId) (Comment st) of
               None \<Rightarrow> (st, Some (Response 404 (Message ''Comment not found'')))
             | Some cmt \<Rightarrow>
                 let cmt' = cmt\<lparr>content := cont, isEdited := True\<rparr>;
                     st1 = st\<lparr>Comment := save cmt' (Comment st)\<rparr>
                 in (st1, Some (Response 200 (Message ''Comment updated successfully'')))))"

section \<open>Properties the statements below refer to\<close>

text \<open>
  The spec's engagement toggle (section 4.4): if the user is among the likes, remove
  them; else add them.
\<close>

definition flipMembership :: "string list \<Rightarrow> string \<Rightarrow> string list" where
  "flipMembership xs u = (if u \<in> set xs then remove1 u xs else xs @ [u])"

text \<open>
  The copies of the post with id \<open>X\<close> agree with it on the field \<open>f\<close>: every stored
  tweet whose \<^verbatim>\<open>retweetedFrom\<close> is \<open>X\<close> carries the value of every stored tweet whose
  \<^verbatim>\<open>_id\<close> is \<open>X\<close>.
\<close>

definition copiesAgree :: "(tweet \<Rightarrow> 'a) \<Rightarrow> objectId \<Rightarrow> tweet list \<Rightarrow> bool" where
  "copiesAgree f X tws =
     (\<forall>orig\<in>set tws. \<forall>cp\<in>set tws.
        doc_id orig = X \<and> retweetedFrom cp = Some X \<longrightarrow> f cp = f orig)"

text \<open>
  The \<^verbatim>\<open>likes\<close> arrays are used as sets: no stored post or comment holds a user name
  twice.
\<close>

definition likesDistinct :: "store \<Rightarrow> bool" where
  "likesDistinct st =
     (list_all (\<lambda>tw. distinct (likes tw)) (Tweet st) \<and>
      list_all (\<lambda>c. distinct (likes c)) (Comment st))"

section \<open>Example stores\<close>

definition ex_alice :: user where
  "ex_alice = \<lparr>doc_id = 10, username = ''alice'', tweets = [1]\<rparr>"

definition ex_bob :: user where
  "ex_bob = \<lparr>doc_id = 11, username = ''bob'', tweets = [3, 2]\<rparr>"

definition tok_alice :: token where
  "tok_alice = \<lparr>tok_id = 10, tok_username = ''alice''\<rparr>"

definition tok_bob :: token where
  "tok_bob = \<lparr>tok_id = 11, tok_username = ''bob''\<rparr>"

text \<open>A post of alice's that bob has retweeted, bob's copy of it, and a post of bob's.\<close>

definition ex_original :: tweet where
  "ex_original =
     \<lparr>doc_id = 1, content = ''hello'', postedBy = Some 10, likes = [''alice''],
      isEdited = False, createdAt = 100, retweets = [''bob''], tag = Some ''news'',
      likeTweetBtn = ''black'', retweetBtn = ''black'', image = None, comments = [5],
      postedTweetTime = ''November 1st 2026, 9:00:00 am'', retweetedFrom = None,
      isRetweeted = False\<rparr>"

definition ex_copy :: tweet where
  "ex_copy =
     \<lparr>doc_id = 2, content = ''hello'', postedBy = Some 10, likes = [''alice''],
      isEdited = False, createdAt = 200, retweets = [''bob''], tag = Some ''news'',
      likeTweetBtn = ''black'', retweetBtn = ''green'', image = None, comments = [5],
      postedTweetTime = ''November 2nd 2026, 9:00:00 am'', retweetedFrom = Some 1,
      isRetweeted = True\<rparr>"

definition ex_second :: tweet where
  "ex_second =
     \<lparr>doc_id = 3, content = ''good morning'', postedBy = Some 11, likes = [],
      isEdited = False, createdAt = 300, retweets = [], tag = None,
      likeTweetBtn = ''black'', retweetBtn = ''black'', image = None, comments = [],
      postedTweetTime = ''November 3rd 2026, 5:00:00 am'', retweetedFrom = None,
      isRetweeted = False\<rparr>"

definition ex_comment :: comment where
  "ex_comment =
     \<lparr>doc_id = 5, content = ''hi'', postedBy = Some 11, likes = [''alice''],
      isEdited = False, createdAt = 150,
      postedCommentTime = ''November 1st 2026, 9:05:00 am'', likeCommentBtn = ''black''\<rparr>"

definition ex_store :: store where
  "ex_store = \<lparr>Tweet = [ex_original, ex_copy, ex_second], Comment = [ex_comment],
               User = [ex_alice, ex_bob]\<rparr>"

text \<open>Before any retweet: alice's post with no retweets, and bob with no posts.\<close>

definition ex_store_fresh :: store where
  "ex_store_fresh = \<lparr>Tweet = [ex_original\<lparr>retweets := []\<rparr>], Comment = [ex_comment],
                     User = [ex_alice, ex_bob\<lparr>tweets := []\<rparr>]\<rparr>"

text \<open>A copy whose likes were not brought up to date with its original's.\<close>

definition ex_store_stale :: store where
  "ex_store_stale = \<lparr>Tweet = [ex_original, ex_copy\<lparr>likes := []\<rparr>], Comment = [ex_comment],
                     User = [ex_alice, ex_bob]\<rparr>"

definition ex_env :: env where
  "ex_env = \<lparr>newId = 7, nowTime = ''November 3rd 2026, 6:08:00 am'', nowStamp = 400\<rparr>"

definition ex_env2 :: env where
  "ex_env2 = \<lparr>newId = 8, nowTime = ''November 3rd 2026, 6:09:00 am'', nowStamp = 460\<rparr>"

lemmas ex_defs = ex_alice_def ex_bob_def tok_alice_def tok_bob_def ex_original_def ex_copy_def
  ex_second_def ex_comment_def ex_store_def ex_store_fresh_def ex_store_stale_def ex_env_def
  ex_env2_def

section \<open>Facts about the array methods and the store operations\<close>

lemma indexOf_None_iff: "indexOf xs x = None \<longleftrightarrow> x \<notin> set xs"
  by (induction xs) auto

lemma indexOf_Some_remove1: "indexOf xs x = Some i \<Longrightarrow> splice1 xs i = remove1 x xs"
proof (induction xs arbitrary: i)
  case Nil
  then show ?case by simp
next
  case (Cons y ys)
  show ?case
  proof (cases "y = x")
    case True
    with Cons.prems show ?thesis by (simp add: splice1_def)
  next
    case False
    with Cons.prems obtain j where j: "indexOf ys x = Some j" "i = Suc j"
      by (auto split: if_splits)
    from Cons.IH[OF j(1)] False j(2) show ?thesis
      by (simp add: splice1_def)
  qed
qed

lemma dropWhile_all: "list_all P xs \<Longrightarrow> dropWhile P xs = []"
  by (induction xs) auto

lemma trim_whitespace_only: "list_all js_whitespace s \<Longrightarrow> trim s = []"
  by (simp add: trim_def dropWhile_all)

lemma dropWhile_Nil_iff: "dropWhile P xs = [] \<longleftrightarrow> (\<forall>x\<in>set xs. P x)"
  by (induction xs) auto

lemma ball_dropWhile: "(\<forall>x\<in>set (dropWhile P xs). P x) \<longleftrightarrow> (\<forall>x\<in>set xs. P x)"
  by (induction xs) auto

lemma trim_empty_iff: "trim s = [] \<longleftrightarrow> list_all js_whitespace s"
  by (simp add: trim_def dropWhile_Nil_iff ball_dropWhile list_all_iff)

lemma find_map_preserve:
  "(\<And>x. P (g x) = P x) \<Longrightarrow> find P (map g xs) = map_option g (find P xs)"
  by (induction xs) auto

lemma find_save:
  "find P xs = Some t \<Longrightarrow> P d \<Longrightarrow> doc_id d = doc_id t \<Longrightarrow> find P (save d xs) = Some d"
  by (induction xs) (auto simp: save_def split: if_splits)

lemma length_deleteFirst: "length (deleteFirst P xs) \<le> length xs"
  by (induction xs) auto

lemma set_deleteFirst: "set (deleteFirst P xs) \<subseteq> set xs"
  by (induction xs) auto

lemma doc_ids_findByIdAndUpdate:
  "(\<And>x. doc_id (f x) = doc_id x) \<Longrightarrow> map doc_id (findByIdAndUpdate i f xs) = map doc_id xs"
  by (simp add: findByIdAndUpdate_def)

lemma find_mem: "find P xs = Some x \<Longrightarrow> x \<in> set xs \<and> P x"
  by (induction xs) (auto split: if_splits)

lemma findSortSkipLimit_page:
  assumes "0 \<le> n"
  shows "\<exists>S. findSortSkipLimit P n xs = Some (take 20 (drop (nat n) S)) \<and>
             mset S = mset (filter P xs) \<and>
             sorted_wrt (\<lambda>a b. createdAt b \<le> createdAt a) S"
proof -
  let ?S = "rev (sort_key createdAt (filter P xs))"
  have "sorted (map createdAt (sort_key createdAt (filter P xs)))"
    by (rule sorted_sort_key)
  then have "sorted_wrt (\<lambda>a b. createdAt a \<le> createdAt b) (sort_key createdAt (filter P xs))"
    by (simp add: sorted_wrt_map)
  then have "sorted_wrt (\<lambda>a b. createdAt b \<le> createdAt a) ?S"
    by (simp add: sorted_wrt_rev)
  moreover have "mset ?S = mset (filter P xs)" by simp
  moreover have "findSortSkipLimit P n xs = Some (take 20 (drop (nat n) ?S))"
    using assms by (simp add: findSortSkipLimit_def)
  ultimately show ?thesis by blast
qed

lemma findSortSkipLimit_negative: "n < 0 \<Longrightarrow> findSortSkipLimit P n xs = None"
  by (simp add: findSortSkipLimit_def)

lemma toggle_flipMembership:
  "(case indexOf xs u of None \<Rightarrow> push xs u | Some i \<Rightarrow> splice1 xs i) = flipMembership xs u"
proof (cases "indexOf xs u")
  case None
  then show ?thesis
    using indexOf_None_iff[of xs u] by (simp add: flipMembership_def push_def)
next
  case (Some i)
  then have "u \<in> set xs" using indexOf_None_iff[of xs u] by auto
  with Some show ?thesis
    by (simp add: flipMembership_def indexOf_Some_remove1)
qed

lemma distinct_flipMembership: "distinct xs \<Longrightarrow> distinct (flipMembership xs u)"
  by (simp add: flipMembership_def)

lemma flipMembership_twice:
  assumes "distinct xs"
  shows "set (flipMembership (flipMembership xs u) u) = set xs"
    and "length (flipMembership (flipMembership xs u) u) = length xs"
proof -
  show "set (flipMembership (flipMembership xs u) u) = set xs"
  proof (cases "u \<in> set xs")
    case True
    with assms show ?thesis by (auto simp: flipMembership_def)
  next
    case False
    then show ?thesis by (simp add: flipMembership_def remove1_append)
  qed
  show "length (flipMembership (flipMembership xs u) u) = length xs"
  proof (cases "u \<in> set xs")
    case True
    then have "0 < length xs" by (cases xs) auto
    with True assms show ?thesis by (simp add: flipMembership_def length_remove1)
  next
    case False
    then show ?thesis by (simp add: flipMembership_def remove1_append)
  qed
qed

lemma likeComment_result:
  assumes "findOne (\<lambda>c. postedCommentTime c = commentId) (Comment st) = Some cmt"
  shows "\<exists>st' btn.
           likeComment userName commentId st =
             (st', Some (Response 200
                (CommentLikeBody btn (length (flipMembership (likes cmt) userName))))) \<and>
           findOne (\<lambda>c. postedCommentTime c = commentId) (Comment st') =
             Some (cmt\<lparr>likes := flipMembership (likes cmt) userName, likeCommentBtn := btn\<rparr>)"
proof -
  let ?L = "flipMembership (likes cmt) userName"
  let ?btn = "if userName \<in> set (likes cmt) then ''black'' else ''deeppink''"
  let ?c = "cmt\<lparr>likes := ?L, likeCommentBtn := ?btn\<rparr>"
  have c': "(case indexOf (likes cmt) userName of
               None \<Rightarrow> cmt\<lparr>likes := push (likes cmt) userName, likeCommentBtn := ''deeppink''\<rparr>
             | Some userIndex \<Rightarrow> cmt\<lparr>likes := splice1 (likes cmt) userIndex,
                                      likeCommentBtn := ''black''\<rparr>) = ?c"
    using toggle_flipMembership[of "likes cmt" userName] indexOf_None_iff[of "likes cmt" userName]
    by (auto split: option.splits)
  have key: "postedCommentTime cmt = commentId" using find_mem[OF assms] by simp
  have r: "likeComment userName commentId st =
          (st\<lparr>Comment := save ?c (Comment st)\<rparr>,
           Some (Response 200 (CommentLikeBody ?btn (length ?L))))"
    using assms by (simp add: likeComment_def Let_def c')
  have f: "findOne (\<lambda>c. postedCommentTime c = commentId) (save ?c (Comment st)) = Some ?c"
    using find_save[OF assms, of ?c] key by simp
  from r f show ?thesis by auto
qed

lemma likeTweet_result:
  assumes "findOne (\<lambda>tw. postedTweetTime tw = tweetId) (Tweet st) = Some T"
  shows "\<exists>st' btn.
           likeTweet userName tweetId st =
             (st', Some (Response 200 (LikeBody (length (flipMembership (likes T) userName)) btn))) \<and>
           Tweet st' = updateMany
              (\<lambda>tw. doc_id tw = originalIdOf T \<or> retweetedFrom tw = Some (originalIdOf T))
              (\<lambda>tw. tw\<lparr>likes := flipMembership (likes T) userName\<rparr>)
              (save (T\<lparr>likes := flipMembership (likes T) userName, likeTweetBtn := btn\<rparr>) (Tweet st)) \<and>
           findOne (\<lambda>tw. postedTweetTime tw = tweetId) (Tweet st') =
             Some (T\<lparr>likes := flipMembership (likes T) userName, likeTweetBtn := btn\<rparr>)"
proof -
  let ?L = "flipMembership (likes T) userName"
  let ?btn = "if userName \<in> set (likes T) then ''black'' else ''deeppink''"
  let ?T = "T\<lparr>likes := ?L, likeTweetBtn := ?btn\<rparr>"
  let ?Q = "\<lambda>tw. doc_id tw = originalIdOf T \<or> retweetedFrom tw = Some (originalIdOf T)"
  let ?g = "\<lambda>tw. if ?Q tw then tw\<lparr>likes := ?L\<rparr> else tw"
  have t': "(case indexOf (likes T) userName of
               None \<Rightarrow> T\<lparr>likes := push (likes T) userName, likeTweetBtn := ''deeppink''\<rparr>
             | Some userIndex \<Rightarrow> T\<lparr>likes := splice1 (likes T) userIndex,
                                      likeTweetBtn := ''black''\<rparr>) = ?T"
    using toggle_flipMembership[of "likes T" userName] indexOf_None_iff[of "likes T" userName]
    by (auto split: option.splits)
  have oid: "originalIdOf ?T = originalIdOf T"
    by (cases "retweetedFrom T") (simp_all add: originalIdOf_def)
  have key: "postedTweetTime T = tweetId" using find_mem[OF assms] by simp
  have r: "likeTweet userName tweetId st =
          (st\<lparr>Tweet := updateMany ?Q (\<lambda>tw. tw\<lparr>likes := ?L\<rparr>) (save ?T (Tweet st))\<rparr>,
           Some (Response 200 (LikeBody (length ?L) ?btn)))"
    using assms by (simp add: likeTweet_def Let_def t' oid)
  have f1: "findOne (\<lambda>tw. postedTweetTime tw = tweetId) (save ?T (Tweet st)) = Some ?T"
    using find_save[OF assms, of ?T] key by simp
  have "findOne (\<lambda>tw. postedTweetTime tw = tweetId) (map ?g (save ?T (Tweet st)))
          = map_option ?g (findOne (\<lambda>tw. postedTweetTime tw = tweetId) (save ?T (Tweet st)))"
    by (rule find_map_preserve) simp
  then have f2: "findOne (\<lambda>tw. postedTweetTime tw = tweetId)
                   (updateMany ?Q (\<lambda>tw. tw\<lparr>likes := ?L\<rparr>) (save ?T (Tweet st))) = Some ?T"
    unfolding f1 updateMany_def by simp
  from r f2 show ?thesis by auto
qed

lemma findById_id: "findById i xs = Some x \<Longrightarrow> doc_id x = i \<and> x \<in> set xs"
  unfolding findById_def using find_mem[of "\<lambda>d. doc_id d = i" xs x] by simp

lemma findById_save:
  "findById i (save d xs) = map_option (\<lambda>x. if doc_id x = doc_id d then d else x) (findById i xs)"
  unfolding findById_def save_def by (rule find_map_preserve) simp

lemma findById_updateMany:
  assumes "\<And>y. doc_id (f y) = doc_id y"
  shows "findById i (updateMany Q f xs) = map_option (\<lambda>x. if Q x then f x else x) (findById i xs)"
  unfolding findById_def updateMany_def by (rule find_map_preserve) (simp add: assms)

lemma updateMany_hit:
  assumes "z \<in> set (updateMany Q f ys)" and "Q z" and "\<And>y. Q (f y) = Q y"
  shows "\<exists>y\<in>set ys. Q y \<and> z = f y"
proof -
  from assms(1) obtain y where y: "y \<in> set ys" "z = (if Q y then f y else y)"
    by (auto simp: updateMany_def)
  show ?thesis
  proof (cases "Q y")
    case True
    with y show ?thesis by auto
  next
    case False
    with y assms(2) show ?thesis by simp
  qed
qed

lemma updateMany_miss:
  assumes "z \<in> set (updateMany Q f ys)" and "\<not> Q z" and "\<And>y. Q (f y) = Q y"
  shows "z \<in> set ys"
  using assms by (auto simp: updateMany_def split: if_splits)

lemma save_hit: "z \<in> set (save d ys) \<Longrightarrow> doc_id z = doc_id d \<Longrightarrow> z = d"
  by (auto simp: save_def split: if_splits)

lemma composeComment_result:
  assumes found: "findOne (\<lambda>tw. postedTweetTime tw = tweetId) (Tweet st) = Some T"
    and ok: "composeComment e ru c tweetId st = (st', Some (Response 200 b))"
  shows "\<exists>orig. findById (originalIdOf T) (Tweet st) = Some orig \<and>
           Tweet st' = updateMany
             (\<lambda>tw. doc_id tw = originalIdOf T \<or> retweetedFrom tw = Some (originalIdOf T))
             (\<lambda>tw. tw\<lparr>comments := newId e # comments orig\<rparr>)
             (save (orig\<lparr>comments := newId e # comments orig\<rparr>) (Tweet st))"
  using found ok
  by (auto simp: composeComment_def Let_def unshift_def split: option.splits)

lemma editTweet_result:
  assumes found: "findOne (\<lambda>tw. postedTweetTime tw = tweetId) (Tweet st) = Some T"
    and ok: "editTweet ru reqContent tweetId st = (st', Some (Response 200 b))"
  shows "\<exists>orig cont. reqContent = Some cont \<and>
           findById (originalIdOf T) (Tweet st) = Some orig \<and>
           Tweet st' = updateMany
             (\<lambda>tw. retweetedFrom tw = Some (originalIdOf T))
             (\<lambda>tw. tw\<lparr>content := cont, isEdited := True\<rparr>)
             (save (orig\<lparr>content := cont, isEdited := True\<rparr>) (Tweet st))"
  using found ok
  by (auto simp: editTweet_def Let_def split: option.splits if_splits)

lemma edit_reaches_all:
  assumes orig: "findById X tws = Some orig"
    and z: "z \<in> set (updateMany (\<lambda>tw. retweetedFrom tw = Some X)
                 (\<lambda>tw. tw\<lparr>content := cont, isEdited := True\<rparr>)
                 (save (orig\<lparr>content := cont, isEdited := True\<rparr>) tws))"
    and rel: "doc_id z = X \<or> retweetedFrom z = Some X"
  shows "content z = cont \<and> isEdited z"
proof (cases "retweetedFrom z = Some X")
  case True
  have "\<exists>y\<in>set (save (orig\<lparr>content := cont, isEdited := True\<rparr>) tws).
          retweetedFrom y = Some X \<and> z = y\<lparr>content := cont, isEdited := True\<rparr>"
    using z True by (rule updateMany_hit) simp
  then show ?thesis by auto
next
  case False
  with rel have id: "doc_id z = X" by simp
  have "z \<in> set (save (orig\<lparr>content := cont, isEdited := True\<rparr>) tws)"
    using z False by (rule updateMany_miss) simp
  moreover have "doc_id orig = X" using findById_id[OF orig] by simp
  ultimately have "z = orig\<lparr>content := cont, isEdited := True\<rparr>"
    using id by (intro save_hit) simp_all
  then show ?thesis by simp
qed

lemma field_reaches_all:
  assumes z: "z \<in> set (updateMany (\<lambda>tw. doc_id tw = X \<or> retweetedFrom tw = Some X) f ys)"
    and rel: "doc_id z = X \<or> retweetedFrom z = Some X"
    and f: "\<And>y. doc_id (f y) = doc_id y" "\<And>y. retweetedFrom (f y) = retweetedFrom y"
  shows "\<exists>y. z = f y"
proof -
  have "\<exists>y\<in>set ys. (doc_id y = X \<or> retweetedFrom y = Some X) \<and> z = f y"
    using z rel by (rule updateMany_hit) (simp add: f)
  then show ?thesis by auto
qed

subsection \<open>The handlers keep the likes arrays free of duplicates\<close>

lemma likesDistinct_empty: "likesDistinct \<lparr>Tweet = [], Comment = [], User = []\<rparr>"
  by (simp add: likesDistinct_def)

lemma list_all_save: "P d \<Longrightarrow> list_all P xs \<Longrightarrow> list_all P (save d xs)"
  by (auto simp: save_def list_all_iff)

lemma list_all_updateMany:
  "(\<And>x. P x \<Longrightarrow> P (f x)) \<Longrightarrow> list_all P xs \<Longrightarrow> list_all P (updateMany Q f xs)"
  by (auto simp: updateMany_def list_all_iff)

lemma list_all_findByIdAndUpdate:
  "(\<And>x. P x \<Longrightarrow> P (f x)) \<Longrightarrow> list_all P xs \<Longrightarrow> list_all P (findByIdAndUpdate i f xs)"
  by (auto simp: findByIdAndUpdate_def list_all_iff)

lemma list_all_deleteFirst: "list_all P xs \<Longrightarrow> list_all P (deleteFirst Q xs)"
  using set_deleteFirst[of Q xs] by (auto simp: list_all_iff)

lemma list_all_find: "list_all P xs \<Longrightarrow> find Q xs = Some x \<Longrightarrow> P x"
  using find_mem[of Q xs x] by (auto simp: list_all_iff)

lemma likeComment_keeps_likesDistinct:
  assumes "likesDistinct st"
  shows "likesDistinct (fst (likeComment userName commentId st))"
proof (cases "findOne (\<lambda>c. postedCommentTime c = commentId) (Comment st)")
  case None
  with assms show ?thesis by (simp add: likeComment_def)
next
  case (Some cmt)
  from assms have all: "list_all (\<lambda>c. distinct (likes c)) (Comment st)"
    by (simp add: likesDistinct_def)
  then have "distinct (likes cmt)" using Some by (rule list_all_find)
  then have d: "distinct (flipMembership (likes cmt) userName)"
    by (rule distinct_flipMembership)
  from likeComment_result[OF Some, of userName]
  obtain st' btn where r: "likeComment userName commentId st = (st', Some (Response 200
         (CommentLikeBody btn (length (flipMembership (likes cmt) userName)))))"
    by blast
  have "\<exists>b. fst (likeComment userName commentId st) =
          st\<lparr>Comment := save (cmt\<lparr>likes := flipMembership (likes cmt) userName,
                                    likeCommentBtn := b\<rparr>) (Comment st)\<rparr>"
    using Some toggle_flipMembership[of "likes cmt" userName]
    by (auto simp: likeComment_def Let_def split: option.splits)
  then obtain b where s: "fst (likeComment userName commentId st) =
          st\<lparr>Comment := save (cmt\<lparr>likes := flipMembership (likes cmt) userName,
                                    likeCommentBtn := b\<rparr>) (Comment st)\<rparr>"
    by blast
  show ?thesis
    unfolding s using assms d all by (simp add: likesDistinct_def list_all_save)
qed

lemma likeTweet_keeps_likesDistinct:
  assumes "likesDistinct st"
  shows "likesDistinct (fst (likeTweet userName tweetId st))"
proof (cases "findOne (\<lambda>tw. postedTweetTime tw = tweetId) (Tweet st)")
  case None
  with assms show ?thesis by (simp add: likeTweet_def)
next
  case (Some T)
  from assms have all: "list_all (\<lambda>tw. distinct (likes tw)) (Tweet st)"
    by (simp add: likesDistinct_def)
  then have "distinct (likes T)" using Some by (rule list_all_find)
  then have d: "distinct (flipMembership (likes T) userName)"
    by (rule distinct_flipMembership)
  from likeTweet_result[OF Some, of userName]
  obtain btn where t: "Tweet (fst (likeTweet userName tweetId st)) = updateMany
              (\<lambda>tw. doc_id tw = originalIdOf T \<or> retweetedFrom tw = Some (originalIdOf T))
              (\<lambda>tw. tw\<lparr>likes := flipMembership (likes T) userName\<rparr>)
              (save (T\<lparr>likes := flipMembership (likes T) userName, likeTweetBtn := btn\<rparr>) (Tweet st))"
    by auto
  have c: "Comment (fst (likeTweet userName tweetId st)) = Comment st"
    using Some by (simp add: likeTweet_def Let_def)
  have "list_all (\<lambda>tw. distinct (likes tw)) (Tweet (fst (likeTweet userName tweetId st)))"
    unfolding t using d all by (intro list_all_updateMany list_all_save) simp_all
  with c assms show ?thesis by (simp add: likesDistinct_def)
qed

lemma retweet_keeps_likesDistinct:
  assumes "likesDistinct st"
  shows "likesDistinct (fst (retweet e ru userName tweetId st))"
proof (cases "findOne (\<lambda>tw. postedTweetTime tw = tweetId) (Tweet st)")
  case None
  with assms show ?thesis by (simp add: retweet_def)
next
  case (Some T)
  from assms have all: "list_all (\<lambda>tw. distinct (likes tw)) (Tweet st)"
    and allc: "list_all (\<lambda>c. distinct (likes c)) (Comment st)"
    by (simp_all add: likesDistinct_def)
  from all have d: "distinct (likes T)" using Some by (rule list_all_find)
  have c: "Comment (fst (retweet e ru userName tweetId st)) = Comment st"
    using Some
    by (simp add: retweet_def Let_def findOneAndDelete_def split: option.splits)
  have "list_all (\<lambda>tw. distinct (likes tw)) (Tweet (fst (retweet e ru userName tweetId st)))"
    using Some all d
    by (auto simp: retweet_def Let_def findOneAndDelete_def create_def
        intro!: list_all_findByIdAndUpdate list_all_deleteFirst split: option.splits)
  with c allc show ?thesis by (simp add: likesDistinct_def)
qed


lemma composeComment_keeps_likesDistinct:
  assumes "likesDistinct st"
  shows "likesDistinct (fst (composeComment e ru c tweetId st))"
proof -
  let ?new = "\<lparr>doc_id = newId e, content = c, postedBy = None, likes = [],
               isEdited = False, createdAt = nowStamp e,
               postedCommentTime = nowTime e, likeCommentBtn = ''black''\<rparr>"
  from assms have all: "list_all (\<lambda>tw. distinct (likes tw)) (Tweet st)"
    and allc: "list_all (\<lambda>c. distinct (likes c)) (Comment st)"
    by (simp_all add: likesDistinct_def)
  have c1: "list_all (\<lambda>c. distinct (likes c)) (create ?new (Comment st))"
    using allc by (simp add: create_def)
  have c2: "list_all (\<lambda>c. distinct (likes c)) (save (?new\<lparr>postedBy := Some u\<rparr>) (create ?new (Comment st)))"
    for u
    using c1 by (intro list_all_save) simp_all
  have t: "list_all (\<lambda>tw. distinct (likes tw))
             (updateMany Q (\<lambda>tw. tw\<lparr>comments := cs\<rparr>) (save (orig\<lparr>comments := cs\<rparr>) (Tweet st)))"
    if "findById X (Tweet st) = Some orig" for Q cs orig X
  proof -
    from findById_id[OF that] all have "distinct (likes orig)" by (auto simp: list_all_iff)
    with all show ?thesis by (intro list_all_updateMany list_all_save) simp_all
  qed
  show ?thesis
    using all c1 c2 t
    by (simp add: composeComment_def Let_def likesDistinct_def unshift_def split: option.splits)
qed

lemma editTweet_keeps_likesDistinct:
  assumes "likesDistinct st"
  shows "likesDistinct (fst (editTweet ru reqContent tweetId st))"
proof -
  from assms have all: "list_all (\<lambda>tw. distinct (likes tw)) (Tweet st)"
    and allc: "list_all (\<lambda>c. distinct (likes c)) (Comment st)"
    by (simp_all add: likesDistinct_def)
  have t: "list_all (\<lambda>tw. distinct (likes tw))
             (updateMany Q (\<lambda>tw. tw\<lparr>content := cont, isEdited := True\<rparr>)
                (save (orig\<lparr>content := cont, isEdited := True\<rparr>) (Tweet st)))"
    if "findById X (Tweet st) = Some orig" for Q cont orig X
  proof -
    from findById_id[OF that] all have "distinct (likes orig)" by (auto simp: list_all_iff)
    with all show ?thesis by (intro list_all_updateMany list_all_save) simp_all
  qed
  show ?thesis
    using all allc t
    by (simp add: editTweet_def Let_def likesDistinct_def split: option.splits)
qed

lemma editComment_keeps_likesDistinct:
  assumes "likesDistinct st"
  shows "likesDistinct (fst (editComment reqContent commentId st))"
proof -
  from assms have all: "list_all (\<lambda>tw. distinct (likes tw)) (Tweet st)"
    and allc: "list_all (\<lambda>c. distinct (likes c)) (Comment st)"
    by (simp_all add: likesDistinct_def)
  have c: "list_all (\<lambda>c. distinct (likes c)) (save (cmt\<lparr>content := cont, isEdited := True\<rparr>) (Comment st))"
    if "findOne Q (Comment st) = Some cmt" for Q cmt cont
  proof -
    from allc that have "distinct (likes cmt)" by (rule list_all_find)
    with allc show ?thesis by (intro list_all_save) simp_all
  qed
  show ?thesis
    using all allc c
    by (simp add: editComment_def Let_def likesDistinct_def split: option.splits)
qed

lemma deleteComment_keeps_likesDistinct:
  assumes "likesDistinct st"
  shows "likesDistinct (fst (deleteComment commentId st))"
proof -
  from assms have all: "list_all (\<lambda>tw. distinct (likes tw)) (Tweet st)"
    and allc: "list_all (\<lambda>c. distinct (likes c)) (Comment st)"
    by (simp_all add: likesDistinct_def)
  have c: "list_all (\<lambda>c. distinct (likes c)) (deleteFirst Q (Comment st))" for Q
    using allc by (rule list_all_deleteFirst)
  have t: "list_all (\<lambda>tw. distinct (likes tw))
             (updateMany Q (\<lambda>tw. tw\<lparr>comments := filter R (comments tw)\<rparr>) (Tweet st))" for Q R
    using all by (intro list_all_updateMany) simp_all
  show ?thesis
    using all allc c t
    by (simp add: deleteComment_def Let_def likesDistinct_def findOneAndDelete_def
        split: option.splits)
qed

section \<open>Retweet of a retweet copy\<close>

text \<open>
  C1, as stated: a retweet request that targets a stored post with \<^verbatim>\<open>isRetweeted = true\<close>
  fails with 400 "Cannot retweet a retweeted tweet", whether or not the requesting user
  is in the post's \<^verbatim>\<open>retweets\<close>. The handler tests \<^verbatim>\<open>tweet.retweets.indexOf(userName)\<close>
  first, and \<^verbatim>\<open>isRetweeted\<close> only in the branch where the user is absent. In \<open>ex_store\<close>
  bob is in the \<^verbatim>\<open>retweets\<close> of the copy he made; his request on that copy goes to the
  un-retweet branch, finds no copy with \<^verbatim>\<open>postedBy\<close> bob and ends without a response.
\<close>

theorem retweet_of_copy_not_always_400:
  "\<not> (\<forall>e ru userName tweetId st P.
        findOne (\<lambda>tw. postedTweetTime tw = tweetId) (Tweet st) = Some P \<and> isRetweeted P \<longrightarrow>
        retweet e ru userName tweetId st =
          (st, Some (Response 400 (Message ''Cannot retweet a retweeted tweet''))))"
proof
  assume a: "\<forall>e ru userName tweetId st P.
        findOne (\<lambda>tw. postedTweetTime tw = tweetId) (Tweet st) = Some P \<and> isRetweeted P \<longrightarrow>
        retweet e ru userName tweetId st =
          (st, Some (Response 400 (Message ''Cannot retweet a retweeted tweet'')))"
  have f: "findOne (\<lambda>tw. postedTweetTime tw = ''November 2nd 2026, 9:00:00 am'') (Tweet ex_store)
             = Some ex_copy \<and> isRetweeted ex_copy"
    by (simp add: ex_defs)
  have r: "retweet ex_env tok_bob ''bob'' ''November 2nd 2026, 9:00:00 am'' ex_store = (ex_store, None)"
    by (simp add: retweet_def ex_defs originalIdOf_def findOneAndDelete_def)
  from a f have "retweet ex_env tok_bob ''bob'' ''November 2nd 2026, 9:00:00 am'' ex_store =
          (ex_store, Some (Response 400 (Message ''Cannot retweet a retweeted tweet'')))"
    by blast
  with r show False by simp
qed

text \<open>
  C1, amended: for a stored post \<open>P\<close> with \<^verbatim>\<open>isRetweeted = true\<close>, a retweet request that
  targets \<open>P\<close> with a user name that is not in \<open>P\<close>'s \<^verbatim>\<open>retweets\<close> is answered 400 "Cannot
  retweet a retweeted tweet" and leaves the store as it was. With a user name that is in
  \<open>P\<close>'s \<^verbatim>\<open>retweets\<close> the request takes the un-retweet branch: it creates no post (the
  tweet collection does not grow and holds no new id) and is not answered 400.
\<close>

theorem retweet_of_copy:
  assumes "findOne (\<lambda>tw. postedTweetTime tw = tweetId) (Tweet st) = Some P"
    and "isRetweeted P"
  shows "(userName \<notin> set (retweets P) \<longrightarrow>
            retweet e ru userName tweetId st =
              (st, Some (Response 400 (Message ''Cannot retweet a retweeted tweet'')))) \<and>
         (userName \<in> set (retweets P) \<longrightarrow>
            length (Tweet (fst (retweet e ru userName tweetId st))) \<le> length (Tweet st) \<and>
            set (map doc_id (Tweet (fst (retweet e ru userName tweetId st))))
              \<subseteq> set (map doc_id (Tweet st)) \<and>
            snd (retweet e ru userName tweetId st) \<noteq>
              Some (Response 400 (Message ''Cannot retweet a retweeted tweet'')))"
proof (intro conjI impI)
  assume "userName \<notin> set (retweets P)"
  then have "indexOf (retweets P) userName = None"
    by (simp add: indexOf_None_iff)
  with assms show "retweet e ru userName tweetId st =
      (st, Some (Response 400 (Message ''Cannot retweet a retweeted tweet'')))"
    by (simp add: retweet_def)
next
  assume "userName \<in> set (retweets P)"
  then obtain i where i: "indexOf (retweets P) userName = Some i"
    using indexOf_None_iff[of "retweets P" userName] by auto
  let ?F = "\<lambda>tw. retweetedFrom tw = Some (originalIdOf P) \<and> postedBy tw = Some (tok_id ru)"
  let ?upd = "\<lambda>tw::tweet. tw\<lparr>retweets := filter (\<lambda>n. n \<noteq> userName) (retweets tw)\<rparr>"
  have ids: "map doc_id (findByIdAndUpdate (originalIdOf P) ?upd (deleteFirst ?F (Tweet st)))
               = map doc_id (deleteFirst ?F (Tweet st))"
    by (rule doc_ids_findByIdAndUpdate) simp
  have tw: "Tweet (fst (retweet e ru userName tweetId st)) = Tweet st \<or>
            Tweet (fst (retweet e ru userName tweetId st)) =
              findByIdAndUpdate (originalIdOf P) ?upd (deleteFirst ?F (Tweet st))"
    using assms(1) i
    by (simp add: retweet_def findOneAndDelete_def Let_def split: option.splits)
  have len: "length (findByIdAndUpdate (originalIdOf P) ?upd (deleteFirst ?F (Tweet st)))
               \<le> length (Tweet st)"
    using length_deleteFirst[of ?F "Tweet st"] by (simp add: findByIdAndUpdate_def)
  from tw len show "length (Tweet (fst (retweet e ru userName tweetId st))) \<le> length (Tweet st)"
    by auto
  have sub: "set (map doc_id (findByIdAndUpdate (originalIdOf P) ?upd (deleteFirst ?F (Tweet st))))
               \<subseteq> set (map doc_id (Tweet st))"
    unfolding ids using set_deleteFirst[of ?F "Tweet st"] by auto
  from tw sub show "set (map doc_id (Tweet (fst (retweet e ru userName tweetId st))))
              \<subseteq> set (map doc_id (Tweet st))"
    by auto
  show "snd (retweet e ru userName tweetId st) \<noteq>
              Some (Response 400 (Message ''Cannot retweet a retweeted tweet''))"
    using assms(1) i
    by (simp add: retweet_def findOneAndDelete_def Let_def split: option.splits)
qed

theorem retweet_of_copy_witness:
  "retweet ex_env tok_alice ''alice'' ''November 2nd 2026, 9:00:00 am'' ex_store =
     (ex_store, Some (Response 400 (Message ''Cannot retweet a retweeted tweet''))) \<and>
   length (Tweet (fst (retweet ex_env tok_bob ''bob'' ''November 2nd 2026, 9:00:00 am'' ex_store)))
     \<le> length (Tweet ex_store) \<and>
   snd (retweet ex_env tok_bob ''bob'' ''November 2nd 2026, 9:00:00 am'' ex_store) \<noteq>
     Some (Response 400 (Message ''Cannot retweet a retweeted tweet''))"
proof -
  have f: "findOne (\<lambda>tw. postedTweetTime tw = ''November 2nd 2026, 9:00:00 am'') (Tweet ex_store)
             = Some ex_copy"
    by (simp add: ex_defs)
  have r: "isRetweeted ex_copy" by (simp add: ex_defs)
  have a: "''alice'' \<notin> set (retweets ex_copy)" by (simp add: ex_defs)
  have b: "''bob'' \<in> set (retweets ex_copy)" by (simp add: ex_defs)
  from retweet_of_copy[OF f r, where userName = "''alice''" and e = ex_env and ru = tok_alice] a
    retweet_of_copy[OF f r, where userName = "''bob''" and e = ex_env and ru = tok_bob] b
  show ?thesis by blast
qed

section \<open>Un-retweet with no matching copy\<close>

text \<open>
  C10: when the user name is in the target's \<^verbatim>\<open>retweets\<close> but no stored post has both
  \<^verbatim>\<open>retweetedFrom\<close> equal to the resolved original and \<^verbatim>\<open>postedBy\<close> equal to the caller's
  id, the handler changes nothing in the store (the original's \<^verbatim>\<open>retweets\<close>, every copy
  and the user's post list are as before) and sends no response.
\<close>

theorem unretweet_without_copy_is_noop:
  assumes "findOne (\<lambda>tw. postedTweetTime tw = tweetId) (Tweet st) = Some T"
    and "userName \<in> set (retweets T)"
    and "list_all (\<lambda>tw. \<not> (retweetedFrom tw = Some (originalIdOf T) \<and>
                             postedBy tw = Some (tok_id ru))) (Tweet st)"
  shows "retweet e ru userName tweetId st = (st, None)"
proof -
  from assms(2) obtain i where i: "indexOf (retweets T) userName = Some i"
    using indexOf_None_iff[of "retweets T" userName] by auto
  from assms(3) have "find (\<lambda>tw. retweetedFrom tw = Some (originalIdOf T) \<and>
                             postedBy tw = Some (tok_id ru)) (Tweet st) = None"
    by (simp add: find_None_iff list_all_iff)
  with assms(1) i show ?thesis
    by (simp add: retweet_def findOneAndDelete_def)
qed

theorem unretweet_without_copy_is_noop_witness:
  "retweet ex_env tok_bob ''bob'' ''November 1st 2026, 9:00:00 am'' ex_store = (ex_store, None)"
proof -
  have f: "findOne (\<lambda>tw. postedTweetTime tw = ''November 1st 2026, 9:00:00 am'') (Tweet ex_store)
             = Some ex_original"
    by (simp add: ex_defs)
  have m: "''bob'' \<in> set (retweets ex_original)" by (simp add: ex_defs)
  have n: "list_all (\<lambda>tw. \<not> (retweetedFrom tw = Some (originalIdOf ex_original) \<and>
                             postedBy tw = Some (tok_id tok_bob))) (Tweet ex_store)"
    by (simp add: ex_defs originalIdOf_def)
  from unretweet_without_copy_is_noop[OF f m n] show ?thesis .
qed

section \<open>Edits with empty content\<close>

text \<open>
  C7: a post edit or a comment edit whose content is absent, empty or made of white
  space only is answered 400 "Content cannot be empty", and the store is returned as it
  was: no document is written, so the target's \<^verbatim>\<open>content\<close> and \<^verbatim>\<open>isEdited\<close> are unchanged.
\<close>

theorem edit_empty_content_rejected:
  assumes "reqContent = None \<or> reqContent = Some [] \<or>
           (\<exists>s. reqContent = Some s \<and> list_all js_whitespace s)"
  shows "editTweet ru reqContent tweetId st =
           (st, Some (Response 400 (Message ''Content cannot be empty''))) \<and>
         editComment reqContent commentId st =
           (st, Some (Response 400 (Message ''Content cannot be empty'')))"
  using assms by (auto simp: editTweet_def editComment_def trim_whitespace_only)

theorem edit_empty_content_rejected_witness:
  "editTweet tok_alice (Some ''  '') ''November 1st 2026, 9:00:00 am'' ex_store =
     (ex_store, Some (Response 400 (Message ''Content cannot be empty''))) \<and>
   editComment None ''November 1st 2026, 9:05:00 am'' ex_store =
     (ex_store, Some (Response 400 (Message ''Content cannot be empty'')))"
proof -
  have h1: "Some ''  '' = None \<or> Some ''  '' = Some [] \<or>
           (\<exists>s. Some ''  '' = Some s \<and> list_all js_whitespace s)"
    by (simp add: js_whitespace_def)
  have h2: "(None :: string option) = None \<or> None = Some [] \<or>
           (\<exists>s. None = Some s \<and> list_all js_whitespace s)"
    by simp
  from edit_empty_content_rejected[OF h1, where ru = tok_alice and st = ex_store
        and tweetId = "''November 1st 2026, 9:00:00 am''"]
    edit_empty_content_rejected[OF h2, where st = ex_store
        and commentId = "''November 1st 2026, 9:05:00 am''"]
  show ?thesis by blast
qed

section \<open>The author of a retweet copy\<close>

text \<open>
  C9: a successful retweet of an original post creates a copy whose \<^verbatim>\<open>postedBy\<close> is the
  original's \<^verbatim>\<open>postedBy\<close>, taken from the original and not from the retweeting user. The
  user appears in the copy's \<^verbatim>\<open>retweets\<close> (the original's list with the user name
  appended) and the copy's id is put at the front of the user's own \<^verbatim>\<open>tweets\<close>. The id
  the store assigns is fresh.
\<close>

theorem retweet_copy_author:
  assumes found: "findOne (\<lambda>tw. postedTweetTime tw = tweetId) (Tweet st) = Some orig"
    and original: "retweetedFrom orig = None"
    and fresh: "newId e \<notin> set (map doc_id (Tweet st))"
    and ok: "retweet e ru userName tweetId st = (st', Some (Response 200 (RetweetBody n ''green'')))"
  shows "\<exists>old cp. Tweet st' = old @ [cp] \<and> length old = length (Tweet st) \<and>
           doc_id cp = newId e \<and> postedBy cp = postedBy orig \<and>
           retweets cp = retweets orig @ [userName] \<and>
           retweetedFrom cp = Some (doc_id orig) \<and> isRetweeted cp \<and>
           (postedBy orig \<noteq> Some (tok_id ru) \<longrightarrow> postedBy cp \<noteq> Some (tok_id ru)) \<and>
           (\<forall>usr. findOne (\<lambda>u. username u = userName) (User st) = Some usr \<longrightarrow>
                  findOne (\<lambda>u. username u = userName) (User st') =
                    Some (usr\<lparr>tweets := newId e # tweets usr\<rparr>))"
proof -
  have idx: "indexOf (retweets orig) userName = None"
  proof (cases "indexOf (retweets orig) userName")
    case None
    then show ?thesis .
  next
    case (Some i)
    with found ok show ?thesis
      by (simp add: retweet_def findOneAndDelete_def Let_def split: option.splits)
  qed
  have notcopy: "\<not> isRetweeted orig"
    using found ok idx by (auto simp: retweet_def)
  have oid: "originalIdOf orig = doc_id orig"
    using original by (simp add: originalIdOf_def)
  from find_mem[OF found] have "orig \<in> set (Tweet st)" by simp
  with fresh have neq: "newId e \<noteq> doc_id orig" by auto
  let ?new = "\<lparr>doc_id = newId e, content = content orig, postedBy = postedBy orig,
               likes = likes orig, isEdited = isEdited orig, createdAt = nowStamp e,
               retweets = retweets orig @ [userName], tag = tag orig,
               likeTweetBtn = likeTweetBtn orig, retweetBtn = ''green'', image = image orig,
               comments = comments orig, postedTweetTime = nowTime e,
               retweetedFrom = Some (doc_id orig), isRetweeted = True\<rparr>"
  let ?push = "\<lambda>tw::tweet. tw\<lparr>retweets := push (retweets tw) userName\<rparr>"
  have tws: "Tweet st' = findByIdAndUpdate (doc_id orig) ?push (Tweet st) @ [?new]"
    using found ok idx notcopy oid neq
    by (auto simp: retweet_def Let_def create_def findByIdAndUpdate_def split: option.splits)
  have usr: "findOne (\<lambda>u. username u = userName) (User st') =
               Some (usr\<lparr>tweets := newId e # tweets usr\<rparr>)"
    if u: "findOne (\<lambda>u. username u = userName) (User st) = Some usr" for usr
  proof -
    have "User st' = save (usr\<lparr>tweets := newId e # tweets usr\<rparr>) (User st)"
      using found ok idx notcopy u
      by (auto simp: retweet_def Let_def unshift_def)
    moreover have "username usr = userName" using find_mem[OF u] by simp
    ultimately show ?thesis using find_save[OF u, of "usr\<lparr>tweets := newId e # tweets usr\<rparr>"]
      by simp
  qed
  show ?thesis
  proof (intro exI conjI)
    show "Tweet st' = findByIdAndUpdate (doc_id orig) ?push (Tweet st) @ [?new]" by (rule tws)
    show "length (findByIdAndUpdate (doc_id orig) ?push (Tweet st)) = length (Tweet st)"
      by (simp add: findByIdAndUpdate_def)
    show "\<forall>usr. findOne (\<lambda>u. username u = userName) (User st) = Some usr \<longrightarrow>
                  findOne (\<lambda>u. username u = userName) (User st') =
                    Some (usr\<lparr>tweets := newId e # tweets usr\<rparr>)"
      using usr by blast
  qed simp_all
qed

theorem retweet_copy_author_witness:
  "\<exists>old cp. Tweet (fst (retweet ex_env tok_bob ''bob'' ''November 1st 2026, 9:00:00 am'' ex_store_fresh))
              = old @ [cp] \<and>
     doc_id cp = 7 \<and> postedBy cp = Some 10 \<and> retweets cp = [''bob''] \<and>
     postedBy cp \<noteq> Some (tok_id tok_bob) \<and>
     findOne (\<lambda>u. username u = ''bob'')
        (User (fst (retweet ex_env tok_bob ''bob'' ''November 1st 2026, 9:00:00 am'' ex_store_fresh)))
       = Some (ex_bob\<lparr>tweets := [7]\<rparr>)"
proof -
  let ?k = "''November 1st 2026, 9:00:00 am''"
  let ?orig = "ex_original\<lparr>retweets := []\<rparr>"
  obtain st' where st': "st' = fst (retweet ex_env tok_bob ''bob'' ?k ex_store_fresh)" by simp
  have f: "findOne (\<lambda>tw. postedTweetTime tw = ?k) (Tweet ex_store_fresh) = Some ?orig"
    by (simp add: ex_defs)
  have o: "retweetedFrom ?orig = None" by (simp add: ex_defs)
  have n: "newId ex_env \<notin> set (map doc_id (Tweet ex_store_fresh))" by (simp add: ex_defs)
  have r: "retweet ex_env tok_bob ''bob'' ?k ex_store_fresh =
             (st', Some (Response 200 (RetweetBody 1 ''green'')))"
    unfolding st' by (simp add: retweet_def ex_defs originalIdOf_def Let_def)
  have u: "findOne (\<lambda>u. username u = ''bob'') (User ex_store_fresh) = Some (ex_bob\<lparr>tweets := []\<rparr>)"
    by (simp add: ex_defs)
  have p: "postedBy ?orig \<noteq> Some (tok_id tok_bob)" by (simp add: ex_defs)
  from retweet_copy_author[OF f o n r] u p show ?thesis
    unfolding st'[symmetric] by (auto simp: ex_defs)
qed

section \<open>Retweet followed by un-retweet\<close>

text \<open>
  C2 on the code, at a user who is not the author of the post: in \<open>ex_store_fresh\<close> bob
  retweets alice's post (answered 200, the copy has id 7 and \<^verbatim>\<open>postedBy\<close> alice) and then
  sends the same request again. The un-retweet branch looks for a copy with \<^verbatim>\<open>postedBy\<close>
  equal to bob's id, finds none, and ends with the store as the retweet left it and no
  response: bob stays in the original's \<^verbatim>\<open>retweets\<close> and the copy stays in bob's
  \<^verbatim>\<open>tweets\<close>, where both were empty before the pair.
\<close>

theorem retweet_then_unretweet_by_non_author:
  "retweet ex_env2 tok_bob ''bob'' ''November 1st 2026, 9:00:00 am''
       (fst (retweet ex_env tok_bob ''bob'' ''November 1st 2026, 9:00:00 am'' ex_store_fresh))
     = (fst (retweet ex_env tok_bob ''bob'' ''November 1st 2026, 9:00:00 am'' ex_store_fresh), None) \<and>
   snd (retweet ex_env tok_bob ''bob'' ''November 1st 2026, 9:00:00 am'' ex_store_fresh)
     = Some (Response 200 (RetweetBody 1 ''green'')) \<and>
   map_option retweets (findById 1 (Tweet ex_store_fresh)) = Some [] \<and>
   map_option retweets (findById 1 (Tweet
       (fst (retweet ex_env tok_bob ''bob'' ''November 1st 2026, 9:00:00 am'' ex_store_fresh))))
     = Some [''bob''] \<and>
   map_option tweets (findOne (\<lambda>u. username u = ''bob'') (User ex_store_fresh)) = Some [] \<and>
   map_option tweets (findOne (\<lambda>u. username u = ''bob'') (User
       (fst (retweet ex_env tok_bob ''bob'' ''November 1st 2026, 9:00:00 am'' ex_store_fresh))))
     = Some [7]"
proof -
  have r: "retweet ex_env tok_bob ''bob'' ''November 1st 2026, 9:00:00 am'' ex_store_fresh =
     (\<lparr>Tweet = [ex_original, ex_copy\<lparr>doc_id := 7, createdAt := 400,
                   postedTweetTime := ''November 3rd 2026, 6:08:00 am''\<rparr>],
       Comment = [ex_comment], User = [ex_alice, ex_bob\<lparr>tweets := [7]\<rparr>]\<rparr>,
      Some (Response 200 (RetweetBody 1 ''green'')))"
    by (simp add: retweet_def ex_defs originalIdOf_def Let_def create_def save_def
        findByIdAndUpdate_def push_def unshift_def)
  show ?thesis
    unfolding r
    by (simp add: retweet_def ex_defs originalIdOf_def findOneAndDelete_def findById_def)
qed

section \<open>Deleting a comment\<close>

text \<open>
  C6 on the code: in \<open>ex_store\<close> the comment with id 5 is attached to alice's post. The
  delete request names it by its \<^verbatim>\<open>postedCommentTime\<close>. The comment's record is removed,
  the \<^verbatim>\<open>$pull\<close> is given that same string where the comment's id is needed, and the
  post's \<^verbatim>\<open>comments\<close> still holds 5 when the handler has answered.
\<close>

theorem delete_comment_leaves_reference:
  "findOne (\<lambda>c. postedCommentTime c = ''November 1st 2026, 9:05:00 am'') (Comment ex_store)
     = Some ex_comment \<and>
   doc_id ex_comment \<in> set (comments ex_original) \<and>
   deleteComment ''November 1st 2026, 9:05:00 am'' ex_store
     = (ex_store\<lparr>Comment := []\<rparr>, Some (Response 500 (Message ''Internal server error''))) \<and>
   findById 1 (Tweet (fst (deleteComment ''November 1st 2026, 9:05:00 am'' ex_store)))
     = Some ex_original"
  by (simp add: deleteComment_def findOneAndDelete_def castObjectId_def findById_def ex_defs)

section \<open>The feed query\<close>

text \<open>
  C8: the feed request leaves the store as it is and answers with a page of posts that
  all have \<^verbatim>\<open>isRetweeted = false\<close>, in descending order of \<^verbatim>\<open>createdAt\<close>, at most 20 of
  them: the page is, up to the two button fields set for the caller, the first 20
  entries after the caller's offset of a list \<open>S\<close> that holds exactly the stored posts
  with \<^verbatim>\<open>isRetweeted = false\<close>, newest first. A negative offset is answered 500. The
  query of \<^verbatim>\<open>GET /topic/:tag\<close> is the same over the posts with the tag.
\<close>

theorem feed_page:
  "(\<exists>r. feed ru t st = (st, Some r) \<and>
     (if (case t of None \<Rightarrow> 0 | Some n \<Rightarrow> n) < 0
      then r = Response 500 (Message ''Internal server error'')
      else \<exists>page S.
        r = Response 200 (FeedBody page (tok_username ru)) \<and>
        mset S = mset (filter (\<lambda>tw. isRetweeted tw = False) (Tweet st)) \<and>
        sorted_wrt (\<lambda>a b. createdAt b \<le> createdAt a) S \<and>
        list_all2 (\<lambda>p s. p = s\<lparr>likeTweetBtn := likeTweetBtn p, retweetBtn := retweetBtn p\<rparr>)
          page (take 20 (drop (nat (case t of None \<Rightarrow> 0 | Some n \<Rightarrow> n)) S)) \<and>
        list_all (\<lambda>tw. isRetweeted tw = False) page \<and>
        sorted_wrt (\<lambda>a b. createdAt b \<le> createdAt a) page \<and>
        length page \<le> 20)) \<and>
   (if k < 0 then topicQuery tg k st = None
    else \<exists>page S.
        topicQuery tg k st = Some page \<and>
        mset S = mset (filter (\<lambda>tw. isRetweeted tw = False \<and> tag tw = Some tg) (Tweet st)) \<and>
        sorted_wrt (\<lambda>a b. createdAt b \<le> createdAt a) S \<and>
        page = take 20 (drop (nat k) S) \<and>
        list_all (\<lambda>tw. isRetweeted tw = False) page \<and>
        sorted_wrt (\<lambda>a b. createdAt b \<le> createdAt a) page \<and>
        length page \<le> 20)"
proof (rule conjI)
  let ?n = "case t of None \<Rightarrow> 0 | Some n \<Rightarrow> n"
  let ?P = "\<lambda>tw. isRetweeted tw = False"
  let ?ann = "\<lambda>tw. tw\<lparr>likeTweetBtn :=
                       (if tok_username ru \<in> set (likes tw) then ''deeppink'' else ''black''),
                     retweetBtn :=
                       (if tok_username ru \<in> set (retweets tw) then ''green'' else ''black'')\<rparr>"
  show "\<exists>r. feed ru t st = (st, Some r) \<and>
     (if ?n < 0 then r = Response 500 (Message ''Internal server error'')
      else \<exists>page S.
        r = Response 200 (FeedBody page (tok_username ru)) \<and>
        mset S = mset (filter ?P (Tweet st)) \<and>
        sorted_wrt (\<lambda>a b. createdAt b \<le> createdAt a) S \<and>
        list_all2 (\<lambda>p s. p = s\<lparr>likeTweetBtn := likeTweetBtn p, retweetBtn := retweetBtn p\<rparr>)
          page (take 20 (drop (nat ?n) S)) \<and>
        list_all ?P page \<and>
        sorted_wrt (\<lambda>a b. createdAt b \<le> createdAt a) page \<and>
        length page \<le> 20)"
  proof (cases "?n < 0")
    case True
    then show ?thesis
      by (simp add: feed_def findSortSkipLimit_negative)
  next
    case False
    then have "0 \<le> ?n" by simp
    from findSortSkipLimit_page[OF this, of ?P "Tweet st"]
    obtain S where S: "findSortSkipLimit ?P ?n (Tweet st) = Some (take 20 (drop (nat ?n) S))"
      "mset S = mset (filter ?P (Tweet st))"
      "sorted_wrt (\<lambda>a b. createdAt b \<le> createdAt a) S"
      by blast
    let ?raw = "take 20 (drop (nat ?n) S)"
    let ?page = "map ?ann ?raw"
    have r: "feed ru t st = (st, Some (Response 200 (FeedBody ?page (tok_username ru))))"
      using S(1) by (simp add: feed_def Let_def)
    have "set S = set (filter ?P (Tweet st))" using S(2) by (rule mset_eq_setD)
    then have allS: "\<forall>tw\<in>set S. isRetweeted tw = False" by auto
    have "set ?raw \<subseteq> set S"
      by (meson set_take_subset set_drop_subset subset_trans)
    with allS have p1: "list_all ?P ?page"
      by (auto simp: list_all_iff)
    have "sorted_wrt (\<lambda>a b. createdAt b \<le> createdAt a) ?raw"
      using S(3) by simp
    then have p2: "sorted_wrt (\<lambda>a b. createdAt b \<le> createdAt a) ?page"
      by (simp add: sorted_wrt_map)
    have p3: "length ?page \<le> 20" by simp
    have p4: "list_all2 (\<lambda>p s. p = s\<lparr>likeTweetBtn := likeTweetBtn p, retweetBtn := retweetBtn p\<rparr>)
                ?page ?raw"
      by (simp add: list_all2_map1 list_all2_same)
    from False r S(2,3) p1 p2 p3 p4 show ?thesis by auto
  qed
next
  let ?P = "\<lambda>tw. isRetweeted tw = False \<and> tag tw = Some tg"
  show "if k < 0 then topicQuery tg k st = None
    else \<exists>page S.
        topicQuery tg k st = Some page \<and>
        mset S = mset (filter ?P (Tweet st)) \<and>
        sorted_wrt (\<lambda>a b. createdAt b \<le> createdAt a) S \<and>
        page = take 20 (drop (nat k) S) \<and>
        list_all (\<lambda>tw. isRetweeted tw = False) page \<and>
        sorted_wrt (\<lambda>a b. createdAt b \<le> createdAt a) page \<and>
        length page \<le> 20"
  proof (cases "k < 0")
    case True
    then show ?thesis by (simp add: topicQuery_def findSortSkipLimit_negative)
  next
    case False
    then have "0 \<le> k" by simp
    from findSortSkipLimit_page[OF this, of ?P "Tweet st"]
    obtain S where S: "findSortSkipLimit ?P k (Tweet st) = Some (take 20 (drop (nat k) S))"
      "mset S = mset (filter ?P (Tweet st))"
      "sorted_wrt (\<lambda>a b. createdAt b \<le> createdAt a) S"
      by blast
    let ?page = "take 20 (drop (nat k) S)"
    have "set S = set (filter ?P (Tweet st))" using S(2) by (rule mset_eq_setD)
    then have allS: "\<forall>tw\<in>set S. isRetweeted tw = False" by auto
    have "set ?page \<subseteq> set S"
      by (meson set_take_subset set_drop_subset subset_trans)
    with allS have p1: "list_all (\<lambda>tw. isRetweeted tw = False) ?page"
      by (auto simp: list_all_iff)
    have p2: "sorted_wrt (\<lambda>a b. createdAt b \<le> createdAt a) ?page"
      using S(3) by simp
    have p3: "length ?page \<le> 20" by simp
    from False S p1 p2 p3 show ?thesis by (auto simp: topicQuery_def)
  qed
qed

theorem feed_page_witness:
  "feed tok_bob (Some 1) ex_store =
     (ex_store, Some (Response 200 (FeedBody [ex_original\<lparr>retweetBtn := ''green''\<rparr>] ''bob''))) \<and>
   topicQuery ''news'' 0 ex_store = Some [ex_original]"
proof -
  have a: "feed tok_bob (Some 1) ex_store =
     (ex_store, Some (Response 200 (FeedBody [ex_original\<lparr>retweetBtn := ''green''\<rparr>] ''bob'')))"
    by (simp add: feed_def findSortSkipLimit_def ex_defs Let_def)
  have b: "topicQuery ''news'' 0 ex_store = Some [ex_original]"
    by (simp add: topicQuery_def findSortSkipLimit_def ex_defs)
  from feed_page[of tok_bob "Some 1" ex_store 0 "''news''"] a b show ?thesis by simp
qed

section \<open>Liking twice\<close>

text \<open>
  C5: for a comment or a post whose \<^verbatim>\<open>likes\<close> array holds no user twice (the arrays start
  empty and the handlers push a name only when it is absent), two like requests in
  succession by the same user on the same target are both answered 200, and after the
  second the target's \<^verbatim>\<open>likes\<close> has the same members and the same length as before the
  first, and the \<^verbatim>\<open>likeCount\<close> of the second response is the length before the first.
\<close>

theorem like_twice_restores:
  "(findOne (\<lambda>c. postedCommentTime c = commentId) (Comment st) = Some cmt \<and> distinct (likes cmt) \<longrightarrow>
      (\<exists>st2 btn cmt2.
         likeComment userName commentId (fst (likeComment userName commentId st)) =
           (st2, Some (Response 200 (CommentLikeBody btn (length (likes cmt))))) \<and>
         findOne (\<lambda>c. postedCommentTime c = commentId) (Comment st2) = Some cmt2 \<and>
         set (likes cmt2) = set (likes cmt) \<and> length (likes cmt2) = length (likes cmt))) \<and>
   (findOne (\<lambda>tw. postedTweetTime tw = tweetId) (Tweet st) = Some T \<and> distinct (likes T) \<longrightarrow>
      (\<exists>st2 btn T2.
         likeTweet userName tweetId (fst (likeTweet userName tweetId st)) =
           (st2, Some (Response 200 (LikeBody (length (likes T)) btn))) \<and>
         findOne (\<lambda>tw. postedTweetTime tw = tweetId) (Tweet st2) = Some T2 \<and>
         set (likes T2) = set (likes T) \<and> length (likes T2) = length (likes T)))"
proof (intro conjI impI)
  assume a: "findOne (\<lambda>c. postedCommentTime c = commentId) (Comment st) = Some cmt \<and>
             distinct (likes cmt)"
  from likeComment_result[of commentId st cmt userName] a
  obtain st1 b1 where 1:
    "likeComment userName commentId st =
       (st1, Some (Response 200 (CommentLikeBody b1 (length (flipMembership (likes cmt) userName)))))"
    "findOne (\<lambda>c. postedCommentTime c = commentId) (Comment st1) =
       Some (cmt\<lparr>likes := flipMembership (likes cmt) userName, likeCommentBtn := b1\<rparr>)"
    by blast
  from likeComment_result[OF 1(2), of userName]
  obtain st2 b2 where 2:
    "likeComment userName commentId st1 =
       (st2, Some (Response 200 (CommentLikeBody b2
          (length (flipMembership (flipMembership (likes cmt) userName) userName)))))"
    "findOne (\<lambda>c. postedCommentTime c = commentId) (Comment st2) =
       Some (cmt\<lparr>likes := flipMembership (flipMembership (likes cmt) userName) userName,
                 likeCommentBtn := b2\<rparr>)"
    by auto
  from a have d: "distinct (likes cmt)" by simp
  show "\<exists>st2 btn cmt2.
         likeComment userName commentId (fst (likeComment userName commentId st)) =
           (st2, Some (Response 200 (CommentLikeBody btn (length (likes cmt))))) \<and>
         findOne (\<lambda>c. postedCommentTime c = commentId) (Comment st2) = Some cmt2 \<and>
         set (likes cmt2) = set (likes cmt) \<and> length (likes cmt2) = length (likes cmt)"
    using 1(1) 2 flipMembership_twice[OF d, of userName] by auto
next
  assume a: "findOne (\<lambda>tw. postedTweetTime tw = tweetId) (Tweet st) = Some T \<and> distinct (likes T)"
  from likeTweet_result[of tweetId st T userName] a
  obtain st1 b1 where 1:
    "likeTweet userName tweetId st =
       (st1, Some (Response 200 (LikeBody (length (flipMembership (likes T) userName)) b1)))"
    "findOne (\<lambda>tw. postedTweetTime tw = tweetId) (Tweet st1) =
       Some (T\<lparr>likes := flipMembership (likes T) userName, likeTweetBtn := b1\<rparr>)"
    by blast
  from likeTweet_result[OF 1(2), of userName]
  obtain st2 b2 where 2:
    "likeTweet userName tweetId st1 =
       (st2, Some (Response 200 (LikeBody
          (length (flipMembership (flipMembership (likes T) userName) userName)) b2)))"
    "findOne (\<lambda>tw. postedTweetTime tw = tweetId) (Tweet st2) =
       Some (T\<lparr>likes := flipMembership (flipMembership (likes T) userName) userName,
               likeTweetBtn := b2\<rparr>)"
    by auto
  from a have d: "distinct (likes T)" by simp
  show "\<exists>st2 btn T2.
         likeTweet userName tweetId (fst (likeTweet userName tweetId st)) =
           (st2, Some (Response 200 (LikeBody (length (likes T)) btn))) \<and>
         findOne (\<lambda>tw. postedTweetTime tw = tweetId) (Tweet st2) = Some T2 \<and>
         set (likes T2) = set (likes T) \<and> length (likes T2) = length (likes T)"
    using 1(1) 2 flipMembership_twice[OF d, of userName] by auto
qed


theorem like_twice_restores_witness:
  "(\<exists>st2 btn cmt2.
      likeComment ''alice'' ''November 1st 2026, 9:05:00 am''
          (fst (likeComment ''alice'' ''November 1st 2026, 9:05:00 am'' ex_store)) =
        (st2, Some (Response 200 (CommentLikeBody btn 1))) \<and>
      findOne (\<lambda>c. postedCommentTime c = ''November 1st 2026, 9:05:00 am'') (Comment st2) = Some cmt2 \<and>
      set (likes cmt2) = {''alice''} \<and> length (likes cmt2) = 1) \<and>
   (\<exists>st2 btn T2.
      likeTweet ''bob'' ''November 1st 2026, 9:00:00 am''
          (fst (likeTweet ''bob'' ''November 1st 2026, 9:00:00 am'' ex_store)) =
        (st2, Some (Response 200 (LikeBody 1 btn))) \<and>
      findOne (\<lambda>tw. postedTweetTime tw = ''November 1st 2026, 9:00:00 am'') (Tweet st2) = Some T2 \<and>
      set (likes T2) = {''alice''} \<and> length (likes T2) = 1)"
proof -
  have c: "findOne (\<lambda>c. postedCommentTime c = ''November 1st 2026, 9:05:00 am'') (Comment ex_store)
             = Some ex_comment \<and> distinct (likes ex_comment)"
    by (simp add: ex_defs)
  have t: "findOne (\<lambda>tw. postedTweetTime tw = ''November 1st 2026, 9:00:00 am'') (Tweet ex_store)
             = Some ex_original \<and> distinct (likes ex_original)"
    by (simp add: ex_defs)
  have lc: "likes ex_comment = [''alice'']" and lt: "likes ex_original = [''alice'']"
    by (simp_all add: ex_defs)
  from like_twice_restores[of "''November 1st 2026, 9:05:00 am''" ex_store ex_comment
      "''alice''" "''November 1st 2026, 9:00:00 am''" ex_original] c
  have 1: "\<exists>st2 btn cmt2.
      likeComment ''alice'' ''November 1st 2026, 9:05:00 am''
          (fst (likeComment ''alice'' ''November 1st 2026, 9:05:00 am'' ex_store)) =
        (st2, Some (Response 200 (CommentLikeBody btn (length (likes ex_comment))))) \<and>
      findOne (\<lambda>c. postedCommentTime c = ''November 1st 2026, 9:05:00 am'') (Comment st2) = Some cmt2 \<and>
      set (likes cmt2) = set (likes ex_comment) \<and> length (likes cmt2) = length (likes ex_comment)"
    by blast
  from like_twice_restores[of "''November 1st 2026, 9:05:00 am''" ex_store ex_comment
      "''bob''" "''November 1st 2026, 9:00:00 am''" ex_original] t
  have 2: "\<exists>st2 btn T2.
      likeTweet ''bob'' ''November 1st 2026, 9:00:00 am''
          (fst (likeTweet ''bob'' ''November 1st 2026, 9:00:00 am'' ex_store)) =
        (st2, Some (Response 200 (LikeBody (length (likes ex_original)) btn))) \<and>
      findOne (\<lambda>tw. postedTweetTime tw = ''November 1st 2026, 9:00:00 am'') (Tweet st2) = Some T2 \<and>
      set (likes T2) = set (likes ex_original) \<and> length (likes T2) = length (likes ex_original)"
    by blast
  from 1 2 show ?thesis unfolding lc lt by simp
qed

section \<open>Propagation to the retweet copies\<close>

text \<open>
  C4: when a content edit, a like toggle or a comment attach has been answered 200, every
  retweet copy of the original the request resolved to carries the original's value of
  the patched field: \<^verbatim>\<open>content\<close> and \<^verbatim>\<open>isEdited\<close> after an edit, \<^verbatim>\<open>likes\<close> after a like,
  \<^verbatim>\<open>comments\<close> after a comment, whose new id stands first (newest first) in the same
  list on the original and on every copy. This holds for any number of copies.
\<close>

theorem propagation_converges:
  "(findOne (\<lambda>tw. postedTweetTime tw = tweetId) (Tweet st) = Some T \<and>
    editTweet ru reqContent tweetId st = (st1, Some (Response 200 b1)) \<longrightarrow>
      copiesAgree content (originalIdOf T) (Tweet st1) \<and>
      copiesAgree isEdited (originalIdOf T) (Tweet st1) \<and>
      (\<forall>tw\<in>set (Tweet st1).
          doc_id tw = originalIdOf T \<or> retweetedFrom tw = Some (originalIdOf T) \<longrightarrow>
          Some (content tw) = reqContent \<and> isEdited tw)) \<and>
   (findOne (\<lambda>tw. postedTweetTime tw = tweetId) (Tweet st) = Some T \<and>
    likeTweet userName tweetId st = (st2, Some (Response 200 b2)) \<longrightarrow>
      copiesAgree likes (originalIdOf T) (Tweet st2) \<and>
      (\<forall>tw\<in>set (Tweet st2).
          doc_id tw = originalIdOf T \<or> retweetedFrom tw = Some (originalIdOf T) \<longrightarrow>
          likes tw = flipMembership (likes T) userName)) \<and>
   (findOne (\<lambda>tw. postedTweetTime tw = tweetId) (Tweet st) = Some T \<and>
    composeComment e ru c tweetId st = (st3, Some (Response 200 b3)) \<longrightarrow>
      copiesAgree comments (originalIdOf T) (Tweet st3) \<and>
      (\<exists>orig. findById (originalIdOf T) (Tweet st) = Some orig \<and>
         (\<forall>tw\<in>set (Tweet st3).
            doc_id tw = originalIdOf T \<or> retweetedFrom tw = Some (originalIdOf T) \<longrightarrow>
            comments tw = newId e # comments orig)))"
proof (intro conjI impI)
  let ?X = "originalIdOf T"
  assume a: "findOne (\<lambda>tw. postedTweetTime tw = tweetId) (Tweet st) = Some T \<and>
             editTweet ru reqContent tweetId st = (st1, Some (Response 200 b1))"
  then obtain orig cont where r: "reqContent = Some cont"
    "findById ?X (Tweet st) = Some orig"
    "Tweet st1 = updateMany (\<lambda>tw. retweetedFrom tw = Some ?X)
             (\<lambda>tw. tw\<lparr>content := cont, isEdited := True\<rparr>)
             (save (orig\<lparr>content := cont, isEdited := True\<rparr>) (Tweet st))"
    using editTweet_result[of tweetId st T ru reqContent st1 b1] by auto
  have all: "content z = cont \<and> isEdited z"
    if "z \<in> set (Tweet st1)" "doc_id z = ?X \<or> retweetedFrom z = Some ?X" for z
    using edit_reaches_all[OF r(2), of z cont] that unfolding r(3) by simp
  show "copiesAgree content ?X (Tweet st1)"
    unfolding copiesAgree_def using all by auto
  show "copiesAgree isEdited ?X (Tweet st1)"
    unfolding copiesAgree_def using all by auto
  show "\<forall>tw\<in>set (Tweet st1). doc_id tw = ?X \<or> retweetedFrom tw = Some ?X \<longrightarrow>
          Some (content tw) = reqContent \<and> isEdited tw"
    using all r(1) by auto
next
  let ?X = "originalIdOf T"
  let ?L = "flipMembership (likes T) userName"
  assume a: "findOne (\<lambda>tw. postedTweetTime tw = tweetId) (Tweet st) = Some T \<and>
             likeTweet userName tweetId st = (st2, Some (Response 200 b2))"
  then obtain btn where r:
    "Tweet st2 = updateMany (\<lambda>tw. doc_id tw = ?X \<or> retweetedFrom tw = Some ?X)
              (\<lambda>tw. tw\<lparr>likes := ?L\<rparr>)
              (save (T\<lparr>likes := ?L, likeTweetBtn := btn\<rparr>) (Tweet st))"
    using likeTweet_result[of tweetId st T userName] by auto
  have all: "likes z = ?L"
    if "z \<in> set (Tweet st2)" "doc_id z = ?X \<or> retweetedFrom z = Some ?X" for z
  proof -
    have "\<exists>y. z = y\<lparr>likes := ?L\<rparr>"
      using that unfolding r by (rule field_reaches_all) simp_all
    then show ?thesis by auto
  qed
  show "copiesAgree likes ?X (Tweet st2)"
    unfolding copiesAgree_def using all by auto
  show "\<forall>tw\<in>set (Tweet st2). doc_id tw = ?X \<or> retweetedFrom tw = Some ?X \<longrightarrow> likes tw = ?L"
    using all by auto
next
  let ?X = "originalIdOf T"
  assume a: "findOne (\<lambda>tw. postedTweetTime tw = tweetId) (Tweet st) = Some T \<and>
             composeComment e ru c tweetId st = (st3, Some (Response 200 b3))"
  then obtain orig where r: "findById ?X (Tweet st) = Some orig"
    "Tweet st3 = updateMany (\<lambda>tw. doc_id tw = ?X \<or> retweetedFrom tw = Some ?X)
             (\<lambda>tw. tw\<lparr>comments := newId e # comments orig\<rparr>)
             (save (orig\<lparr>comments := newId e # comments orig\<rparr>) (Tweet st))"
    using composeComment_result[of tweetId st T e ru c st3 b3] by auto
  have all: "comments z = newId e # comments orig"
    if "z \<in> set (Tweet st3)" "doc_id z = ?X \<or> retweetedFrom z = Some ?X" for z
  proof -
    have "\<exists>y. z = y\<lparr>comments := newId e # comments orig\<rparr>"
      using that unfolding r(2) by (rule field_reaches_all) simp_all
    then show ?thesis by auto
  qed
  show "copiesAgree comments ?X (Tweet st3)"
    unfolding copiesAgree_def using all by auto
  show "\<exists>orig. findById ?X (Tweet st) = Some orig \<and>
         (\<forall>tw\<in>set (Tweet st3). doc_id tw = ?X \<or> retweetedFrom tw = Some ?X \<longrightarrow>
            comments tw = newId e # comments orig)"
    using all r(1) by auto
qed


theorem propagation_converges_witness:
  "copiesAgree content 1
     (Tweet (fst (editTweet tok_alice (Some ''hello world'') ''November 2nd 2026, 9:00:00 am'' ex_store))) \<and>
   map content
     (Tweet (fst (editTweet tok_alice (Some ''hello world'') ''November 2nd 2026, 9:00:00 am'' ex_store)))
     = [''hello world'', ''hello world'', ''good morning''] \<and>
   copiesAgree likes 1
     (Tweet (fst (likeTweet ''bob'' ''November 2nd 2026, 9:00:00 am'' ex_store))) \<and>
   map likes (Tweet (fst (likeTweet ''bob'' ''November 2nd 2026, 9:00:00 am'' ex_store)))
     = [[''alice'', ''bob''], [''alice'', ''bob''], []] \<and>
   copiesAgree comments 1
     (Tweet (fst (composeComment ex_env tok_bob ''nice'' ''November 1st 2026, 9:00:00 am'' ex_store))) \<and>
   map comments
     (Tweet (fst (composeComment ex_env tok_bob ''nice'' ''November 1st 2026, 9:00:00 am'' ex_store)))
     = [[7, 5], [7, 5], []]"
proof -
  let ?k1 = "''November 1st 2026, 9:00:00 am''"
  let ?k2 = "''November 2nd 2026, 9:00:00 am''"
  let ?E = "editTweet tok_alice (Some ''hello world'') ?k2 ex_store"
  let ?L = "likeTweet ''bob'' ?k2 ex_store"
  let ?C = "composeComment ex_env tok_bob ''nice'' ?k1 ex_store"
  have f1: "findOne (\<lambda>tw. postedTweetTime tw = ?k1) (Tweet ex_store) = Some ex_original"
    and f2: "findOne (\<lambda>tw. postedTweetTime tw = ?k2) (Tweet ex_store) = Some ex_copy"
    by (simp_all add: ex_defs)
  have x1: "originalIdOf ex_original = 1" and x2: "originalIdOf ex_copy = 1"
    by (simp_all add: originalIdOf_def ex_defs)
  have "\<exists>b. snd ?E = Some (Response 200 b)"
    by (simp add: editTweet_def trim_def js_whitespace_def originalIdOf_def findById_def Let_def ex_defs)
  then obtain b1 where e: "?E = (fst ?E, Some (Response 200 b1))"
    by (auto simp: prod_eq_iff)
  have "\<exists>b. snd ?L = Some (Response 200 b)"
    by (simp add: likeTweet_def Let_def ex_defs)
  then obtain b2 where l: "?L = (fst ?L, Some (Response 200 b2))"
    by (auto simp: prod_eq_iff)
  have "\<exists>b. snd ?C = Some (Response 200 b)"
    by (simp add: composeComment_def originalIdOf_def findById_def create_def Let_def ex_defs)
  then obtain b3 where c: "?C = (fst ?C, Some (Response 200 b3))"
    by (auto simp: prod_eq_iff)
  have me: "map content (Tweet (fst ?E)) = [''hello world'', ''hello world'', ''good morning'']"
    by (simp add: editTweet_def trim_def js_whitespace_def originalIdOf_def findById_def Let_def
        save_def updateMany_def ex_defs)
  have ml: "map likes (Tweet (fst ?L)) = [[''alice'', ''bob''], [''alice'', ''bob''], []]"
    by (simp add: likeTweet_def Let_def originalIdOf_def save_def updateMany_def push_def ex_defs)
  have mc: "map comments (Tweet (fst ?C)) = [[7, 5], [7, 5], []]"
    by (simp add: composeComment_def originalIdOf_def findById_def create_def Let_def
        save_def updateMany_def unshift_def ex_defs)
  from propagation_converges[where tweetId = ?k2 and st = ex_store and T = ex_copy
      and ru = tok_alice and reqContent = "Some ''hello world''" and ?st1.0 = "fst ?E" and ?b1.0 = b1
      and userName = "''bob''" and ?st2.0 = "fst ?L" and ?b2.0 = b2] f2 e l
  have 1: "copiesAgree content 1 (Tweet (fst ?E))" and 2: "copiesAgree likes 1 (Tweet (fst ?L))"
    unfolding x2 by blast+
  from propagation_converges[where tweetId = ?k1 and st = ex_store and T = ex_original
      and e = ex_env and ru = tok_bob and c = "''nice''" and ?st3.0 = "fst ?C" and ?b3.0 = b3] f1 c
  have 3: "copiesAgree comments 1 (Tweet (fst ?C))"
    unfolding x1 by blast
  from 1 2 3 me ml mc show ?thesis by simp
qed

section \<open>Mutations that target a retweet copy\<close>

text \<open>
  C3, as stated: a like toggle that targets a retweet copy reads and flips the user's
  membership in the original's \<^verbatim>\<open>likes\<close>. The handler never loads the original: it
  flips the user in the \<^verbatim>\<open>likes\<close> of the tweet it found and writes that array to the
  original and to every copy. In \<open>ex_store_stale\<close> the original is liked by alice and the
  copy's \<^verbatim>\<open>likes\<close> is empty; after bob's like on the copy the original's \<^verbatim>\<open>likes\<close> is
  bob alone, not alice and bob.
\<close>

theorem like_on_copy_flips_copy_likes:
  "\<not> (\<forall>userName tweetId st cp X orig.
        findOne (\<lambda>tw. postedTweetTime tw = tweetId) (Tweet st) = Some cp \<and>
        retweetedFrom cp = Some X \<and> findById X (Tweet st) = Some orig \<longrightarrow>
        map_option likes (findById X (Tweet (fst (likeTweet userName tweetId st)))) =
          Some (flipMembership (likes orig) userName))"
proof
  let ?k2 = "''November 2nd 2026, 9:00:00 am''"
  assume a: "\<forall>userName tweetId st cp X orig.
        findOne (\<lambda>tw. postedTweetTime tw = tweetId) (Tweet st) = Some cp \<and>
        retweetedFrom cp = Some X \<and> findById X (Tweet st) = Some orig \<longrightarrow>
        map_option likes (findById X (Tweet (fst (likeTweet userName tweetId st)))) =
          Some (flipMembership (likes orig) userName)"
  have h: "findOne (\<lambda>tw. postedTweetTime tw = ?k2) (Tweet ex_store_stale) = Some (ex_copy\<lparr>likes := []\<rparr>) \<and>
        retweetedFrom (ex_copy\<lparr>likes := []\<rparr>) = Some 1 \<and>
        findById 1 (Tweet ex_store_stale) = Some ex_original"
    by (simp add: findById_def ex_defs)
  have code: "map_option likes (findById 1 (Tweet (fst (likeTweet ''bob'' ?k2 ex_store_stale))))
                = Some [''bob'']"
    by (simp add: likeTweet_def Let_def originalIdOf_def save_def updateMany_def push_def
        findById_def ex_defs)
  have claim: "flipMembership (likes ex_original) ''bob'' = [''alice'', ''bob'']"
    by (simp add: flipMembership_def ex_defs)
  from a h have "map_option likes (findById 1 (Tweet (fst (likeTweet ''bob'' ?k2 ex_store_stale))))
                   = Some (flipMembership (likes ex_original) ''bob'')"
    by blast
  then have "Some [''bob''] = Some [''alice'', ''bob'']"
    unfolding code claim .
  then show False by simp
qed

text \<open>
  C3, amended: for a request whose target is a retweet copy of a stored original, a
  comment attach puts the new comment's id in front of the original's own \<^verbatim>\<open>comments\<close>
  and a content edit sets the original's \<^verbatim>\<open>content\<close> and \<^verbatim>\<open>isEdited\<close>, both through the
  original resolved by \<^verbatim>\<open>retweetedFrom\<close>. A like toggle flips the user's membership in
  the copy's own \<^verbatim>\<open>likes\<close>, saves the copy, and gives the original that array; when the
  copy's \<^verbatim>\<open>likes\<close> equals the original's, this is the flip in the original's \<^verbatim>\<open>likes\<close>.
\<close>

theorem mutation_on_copy:
  assumes found: "findOne (\<lambda>tw. postedTweetTime tw = tweetId) (Tweet st) = Some cp"
    and copy: "retweetedFrom cp = Some X"
    and orig: "findById X (Tweet st) = Some orig"
  shows "(composeComment e ru c tweetId st = (st1, Some (Response 200 b1)) \<longrightarrow>
            map_option comments (findById X (Tweet st1)) = Some (newId e # comments orig)) \<and>
         (editTweet ru reqContent tweetId st = (st2, Some (Response 200 b2)) \<longrightarrow>
            map_option content (findById X (Tweet st2)) = reqContent \<and>
            map_option isEdited (findById X (Tweet st2)) = Some True) \<and>
         map_option likes (findById X (Tweet (fst (likeTweet userName tweetId st)))) =
           Some (flipMembership (likes cp) userName) \<and>
         map_option likes (findOne (\<lambda>tw. postedTweetTime tw = tweetId)
                             (Tweet (fst (likeTweet userName tweetId st)))) =
           Some (flipMembership (likes cp) userName) \<and>
         (likes cp = likes orig \<longrightarrow>
            map_option likes (findById X (Tweet (fst (likeTweet userName tweetId st)))) =
              Some (flipMembership (likes orig) userName))"
proof -
  have X: "originalIdOf cp = X" using copy by (simp add: originalIdOf_def)
  have idX: "doc_id orig = X" using findById_id[OF orig] by simp
  have comment: "map_option comments (findById X (Tweet st1)) = Some (newId e # comments orig)"
    if ok: "composeComment e ru c tweetId st = (st1, Some (Response 200 b1))"
  proof -
    from composeComment_result[OF found ok] orig X
    have t: "Tweet st1 = updateMany (\<lambda>tw. doc_id tw = X \<or> retweetedFrom tw = Some X)
               (\<lambda>tw. tw\<lparr>comments := newId e # comments orig\<rparr>)
               (save (orig\<lparr>comments := newId e # comments orig\<rparr>) (Tweet st))"
      by auto
    show ?thesis
      unfolding t by (simp add: findById_updateMany findById_save orig idX)
  qed
  have edit: "map_option content (findById X (Tweet st2)) = reqContent \<and>
              map_option isEdited (findById X (Tweet st2)) = Some True"
    if ok: "editTweet ru reqContent tweetId st = (st2, Some (Response 200 b2))"
  proof -
    from editTweet_result[OF found ok] orig X
    obtain cont where r: "reqContent = Some cont"
      and t: "Tweet st2 = updateMany (\<lambda>tw. retweetedFrom tw = Some X)
               (\<lambda>tw. tw\<lparr>content := cont, isEdited := True\<rparr>)
               (save (orig\<lparr>content := cont, isEdited := True\<rparr>) (Tweet st))"
      by auto
    show ?thesis
      unfolding t r by (simp add: findById_updateMany findById_save orig idX)
  qed
  from likeTweet_result[OF found, of userName] X
  obtain btn where
    t: "Tweet (fst (likeTweet userName tweetId st)) =
          updateMany (\<lambda>tw. doc_id tw = X \<or> retweetedFrom tw = Some X)
            (\<lambda>tw. tw\<lparr>likes := flipMembership (likes cp) userName\<rparr>)
            (save (cp\<lparr>likes := flipMembership (likes cp) userName, likeTweetBtn := btn\<rparr>) (Tweet st))"
    and f: "findOne (\<lambda>tw. postedTweetTime tw = tweetId) (Tweet (fst (likeTweet userName tweetId st))) =
          Some (cp\<lparr>likes := flipMembership (likes cp) userName, likeTweetBtn := btn\<rparr>)"
    by auto
  have like: "map_option likes (findById X (Tweet (fst (likeTweet userName tweetId st)))) =
           Some (flipMembership (likes cp) userName)"
    unfolding t by (simp add: findById_updateMany findById_save orig idX)
  have own: "map_option likes (findOne (\<lambda>tw. postedTweetTime tw = tweetId)
                             (Tweet (fst (likeTweet userName tweetId st)))) =
           Some (flipMembership (likes cp) userName)"
    unfolding f by simp
  have same: "map_option likes (findById X (Tweet (fst (likeTweet userName tweetId st)))) =
              Some (flipMembership (likes orig) userName)"
    if "likes cp = likes orig"
    using like unfolding that .
  from comment edit like own same show ?thesis by blast
qed

theorem mutation_on_copy_witness:
  "map_option comments (findById 1 (Tweet (fst
      (composeComment ex_env tok_bob ''nice'' ''November 2nd 2026, 9:00:00 am'' ex_store))))
     = Some [7, 5] \<and>
   map_option content (findById 1 (Tweet (fst
      (editTweet tok_alice (Some ''hello world'') ''November 2nd 2026, 9:00:00 am'' ex_store))))
     = Some ''hello world'' \<and>
   map_option likes (findById 1 (Tweet (fst
      (likeTweet ''bob'' ''November 2nd 2026, 9:00:00 am'' ex_store_stale))))
     = Some [''bob''] \<and>
   map_option likes (findById 1 (Tweet (fst
      (likeTweet ''bob'' ''November 2nd 2026, 9:00:00 am'' ex_store))))
     = Some [''alice'', ''bob'']"
proof -
  let ?k2 = "''November 2nd 2026, 9:00:00 am''"
  let ?C = "composeComment ex_env tok_bob ''nice'' ?k2 ex_store"
  let ?E = "editTweet tok_alice (Some ''hello world'') ?k2 ex_store"
  have f: "findOne (\<lambda>tw. postedTweetTime tw = ?k2) (Tweet ex_store) = Some ex_copy"
    and c: "retweetedFrom ex_copy = Some 1"
    and oo: "findById 1 (Tweet ex_store) = Some ex_original"
    by (simp_all add: findById_def ex_defs)
  have fs: "findOne (\<lambda>tw. postedTweetTime tw = ?k2) (Tweet ex_store_stale) = Some (ex_copy\<lparr>likes := []\<rparr>)"
    and cs: "retweetedFrom (ex_copy\<lparr>likes := []\<rparr>) = Some 1"
    and os: "findById 1 (Tweet ex_store_stale) = Some ex_original"
    by (simp_all add: findById_def ex_defs)
  have "\<exists>b. snd ?C = Some (Response 200 b)"
    by (simp add: composeComment_def originalIdOf_def findById_def create_def Let_def ex_defs)
  then obtain b1 where rc: "?C = (fst ?C, Some (Response 200 b1))"
    by (auto simp: prod_eq_iff)
  have "\<exists>b. snd ?E = Some (Response 200 b)"
    by (simp add: editTweet_def trim_def js_whitespace_def originalIdOf_def findById_def Let_def ex_defs)
  then obtain b2 where re: "?E = (fst ?E, Some (Response 200 b2))"
    by (auto simp: prod_eq_iff)
  have co: "comments ex_original = [5]" and ne: "newId ex_env = 7"
    by (simp_all add: ex_defs)
  have fl: "flipMembership (likes (ex_copy\<lparr>likes := []\<rparr>)) ''bob'' = [''bob'']"
    by (simp add: flipMembership_def)
  from mutation_on_copy[OF f c oo, where e = ex_env and ru = tok_bob and c = "''nice''"
      and ?st1.0 = "fst ?C" and ?b1.0 = b1] rc
  have 1: "map_option comments (findById 1 (Tweet (fst ?C))) = Some [7, 5]"
    unfolding co ne by blast
  from mutation_on_copy[OF f c oo, where ru = tok_alice and reqContent = "Some ''hello world''"
      and ?st2.0 = "fst ?E" and ?b2.0 = b2] re
  have 2: "map_option content (findById 1 (Tweet (fst ?E))) = Some ''hello world''"
    by blast
  from mutation_on_copy[OF fs cs os, where userName = "''bob''"]
  have 3: "map_option likes (findById 1 (Tweet (fst (likeTweet ''bob'' ?k2 ex_store_stale))))
             = Some [''bob'']"
    unfolding fl by blast
  have eq: "likes ex_copy = likes ex_original" by (simp add: ex_defs)
  have fo: "flipMembership (likes ex_original) ''bob'' = [''alice'', ''bob'']"
    by (simp add: flipMembership_def ex_defs)
  from mutation_on_copy[OF f c oo, where userName = "''bob''"] eq
  have 4: "map_option likes (findById 1 (Tweet (fst (likeTweet ''bob'' ?k2 ex_store))))
             = Some [''alice'', ''bob'']"
    unfolding fo by blast
  from 1 2 3 4 show ?thesis by simp
qed

end
